theory Spec2Isabelle
  imports Complex_Main "HOL-Library.Word"
begin

section \<open>Python values used by \<^verbatim>\<open>chat_agent.py\<close>\<close>

text \<open>
  A Python \<^verbatim>\<open>str\<close> is modelled by its UTF-8 encoding, a \<^typ>\<open>string\<close> of bytes. The
  operations the module uses on strings (concatenation, \<^verbatim>\<open>endswith\<close>, and cutting off a
  suffix that is known to be present) give the same result on code points and on their
  encoding. Python integers are \<^typ>\<open>int\<close>; the reading of \<^verbatim>\<open>time.time()\<close> is a
  rational number of seconds, and the subtraction of the look-back from it is exact.
\<close>

definition endswith :: "string \<Rightarrow> string \<Rightarrow> bool" where
  "endswith s suf \<longleftrightarrow> length suf \<le> length s \<and> drop (length s - length suf) s = suf"

definition py_slice_from :: "'a list \<Rightarrow> int \<Rightarrow> 'a list" where
  \<comment> \<open>\<^verbatim>\<open>xs[i:]\<close>: a negative index counts from the end and is clipped at the front.\<close>
  "py_slice_from xs i =
     (if i < 0 then drop (nat (int (length xs) + i)) xs else drop (nat i) xs)"

definition py_slice_to :: "'a list \<Rightarrow> int \<Rightarrow> 'a list" where
  \<comment> \<open>\<^verbatim>\<open>xs[:i]\<close>; note that \<^verbatim>\<open>xs[:-0]\<close> is \<^verbatim>\<open>xs[:0]\<close>, the empty list.\<close>
  "py_slice_to xs i =
     (if i < 0 then take (nat (int (length xs) + i)) xs else take (nat i) xs)"

definition py_int :: "rat \<Rightarrow> int" where
  \<comment> \<open>\<^verbatim>\<open>int(x)\<close> of a float: truncation toward zero.\<close>
  "py_int x = (if x < 0 then \<lceil>x\<rceil> else \<lfloor>x\<rfloor>)"

definition py_or :: "string \<Rightarrow> string \<Rightarrow> string" where
  \<comment> \<open>\<^verbatim>\<open>a or b\<close> on strings: the empty string is falsy.\<close>
  "py_or a b = (if a = [] then b else a)"

definition digit_char :: "nat \<Rightarrow> char" where
  "digit_char n = ''0123456789'' ! (n mod 10)"

fun str_nat :: "nat \<Rightarrow> string" where
  "str_nat n = (if n < 10 then [digit_char n] else str_nat (n div 10) @ [digit_char n])"

definition str_int :: "int \<Rightarrow> string" where
  \<comment> \<open>\<^verbatim>\<open>str(i)\<close>, as an f-string formats an integer.\<close>
  "str_int i = (if i < 0 then CHR ''-'' # str_nat (nat (- i)) else str_nat (nat i))"

definition hex_char :: "nat \<Rightarrow> char" where
  "hex_char n = ''0123456789abcdef'' ! (n mod 16)"

definition byte_hex :: "8 word \<Rightarrow> string" where
  "byte_hex b = [hex_char (unat b div 16), hex_char (unat b)]"

definition bytes_hex :: "8 word list \<Rightarrow> string" where
  \<comment> \<open>\<^verbatim>\<open>bytes.hex()\<close>: two lower-case digits per byte.\<close>
  "bytes_hex bs = concat (map byte_hex bs)"

section \<open>Configuration and data model\<close>

record config =
  DEBUG_IN_CHAT :: bool
  AI_CHAT_PRESET_SETTING :: string
  AI_CHAT_CONTEXT_EXPIRE_SECONDS :: int
  AI_CHAT_CONTEXT_MAX_LENGTH :: int
  AI_CHAT_LLM_API_MAX_RETRIES :: int
  AI_SCRIPT_MAX_RETRY_TIMES :: int

text \<open>
  \<^verbatim>\<open>ChatMessage\<close> and \<^verbatim>\<open>DBChatMessage\<close> are declared in modules of the repository that
  are not part of the verified file; the records carry the fields that \<^verbatim>\<open>chat_agent.py\<close>
  reads, and for a stored turn the sender and text that the specification lists.
\<close>

record ChatMessage =
  chat_key :: string
  sender_nickname :: string

record DBChatMessage =
  db_chat_key :: string
  send_timestamp :: int
  db_sender :: string
  db_content :: string

text \<open>Modelled from the spec: the kinds of a resolved action (\<^verbatim>\<open>ChatResponseType\<close>,
  declared in \<^verbatim>\<open>components/chat_ret_cmp.py\<close>): text emission and script execution.\<close>

datatype ChatResponseType = TEXT | SCRIPT

record Store =
  store_chat_key :: string
  store_chat_preset :: string
  store_one_time_code :: string

datatype component =
    Str string
  | TextComponent string Store
  | ChatResponseResolver_example string
  | ChatHistoryComponent string "DBChatMessage list"

datatype prompt_message =
    SystemMessage "component list" string
  | UserMessage "component list"
  | AiMessage "component list"

record OpenAIPromptCreator =
  messages :: "prompt_message list"
  temperature :: rat
  presence_penalty :: rat
  frequency_penalty :: rat

record ChatScene =
  store :: Store
  prompt_creator :: OpenAIPromptCreator

record ModelResponse =
  mr_scene :: ChatScene
  response_text :: string

datatype error =
    SceneRuntimeError string
  | ResolveError string
  | Exception string

section \<open>The context window (lines 81 to 91)\<close>

text \<open>
  The query is evaluated on the rows of the message table: \<^verbatim>\<open>filter\<close> keeps the rows of
  the channel that are not older than the cut-off, \<^verbatim>\<open>order_by(... desc())\<close> sorts them
  newest first (rows with equal timestamps keep their table order), \<^verbatim>\<open>limit(n)\<close> keeps
  the first \<open>n\<close> rows. A negative row count is backend-specific; the model follows the
  backends that read it as no bound, and every statement about the size of the window
  assumes a non-negative maximum.
\<close>

definition sql_limit :: "int \<Rightarrow> 'a list \<Rightarrow> 'a list" where
  "sql_limit n rows = (if n < 0 then rows else take (nat n) rows)"

definition sqa_query :: "DBChatMessage list \<Rightarrow> string \<Rightarrow> int \<Rightarrow> int \<Rightarrow> DBChatMessage list" where
  "sqa_query rows key sta_timestamp n =
     sql_limit n
       (sort_key (\<lambda>m. - send_timestamp m)
          (filter (\<lambda>m. db_chat_key m = key \<and> sta_timestamp \<le> send_timestamp m) rows))"

definition recent_chat_messages ::
  "config \<Rightarrow> DBChatMessage list \<Rightarrow> string \<Rightarrow> rat \<Rightarrow> DBChatMessage list" where
  "recent_chat_messages cfg rows key now =
     (let sta_timestamp = py_int (now - of_int (AI_CHAT_CONTEXT_EXPIRE_SECONDS cfg))
      in py_slice_from
           (rev (sqa_query rows key sta_timestamp (AI_CHAT_CONTEXT_MAX_LENGTH cfg)))
           (- AI_CHAT_CONTEXT_MAX_LENGTH cfg))"

section \<open>The fixed texts of the module\<close>

text \<open>The literals that are not ASCII, as their UTF-8 bytes.\<close>

definition DEBUG_THINKING :: string where
  \<comment> \<open>line 69\<close>
  "DEBUG_THINKING =
     [CHR 0x5B, CHR 0x44, CHR 0x65, CHR 0x62, CHR 0x75, CHR 0x67, CHR 0x5D, CHR 0x20,
      CHR 0xE6, CHR 0x80, CHR 0x9D, CHR 0xE8, CHR 0x80, CHR 0x83, CHR 0xE4, CHR 0xB8,
      CHR 0xAD, CHR 0xF0, CHR 0x9F, CHR 0xA4, CHR 0x94, CHR 0x2E, CHR 0x2E, CHR 0x2E]"

definition LLM_API_APOLOGY :: string where
  \<comment> \<open>line 142\<close>
  "LLM_API_APOLOGY =
     [CHR 0xE5, CHR 0x93, CHR 0x8E, CHR 0xE5, CHR 0x91, CHR 0x80, CHR 0xEF, CHR 0xBC,
      CHR 0x8C, CHR 0xE8, CHR 0xAF, CHR 0xB7, CHR 0xE6, CHR 0xB1, CHR 0x82, CHR 0xE6,
      CHR 0xA8, CHR 0xA1, CHR 0xE5, CHR 0x9E, CHR 0x8B, CHR 0xE5, CHR 0x8F, CHR 0x91,
      CHR 0xE7, CHR 0x94, CHR 0x9F, CHR 0xE4, CHR 0xBA, CHR 0x86, CHR 0xE6, CHR 0x9C,
      CHR 0xAA, CHR 0xE7, CHR 0x9F, CHR 0xA5, CHR 0xE9, CHR 0x94, CHR 0x99, CHR 0xE8,
      CHR 0xAF, CHR 0xAF, CHR 0xEF, CHR 0xBC, CHR 0x8C, CHR 0xE7, CHR 0xAD, CHR 0x89,
      CHR 0xE4, CHR 0xBC, CHR 0x9A, CHR 0xE5, CHR 0x84, CHR 0xBF, CHR 0xE5, CHR 0x86,
      CHR 0x8D, CHR 0xE8, CHR 0xAF, CHR 0x95, CHR 0xE8, CHR 0xAF, CHR 0x95, CHR 0xE5,
      CHR 0x90, CHR 0xA7, CHR 0x20, CHR 0x7E]"

definition LLM_API_FATAL :: string where
  \<comment> \<open>line 143\<close>
  "LLM_API_FATAL =
     [CHR 0x4C, CHR 0x4C, CHR 0x4D, CHR 0x20, CHR 0x41, CHR 0x50, CHR 0x49, CHR 0x20,
      CHR 0x65, CHR 0x72, CHR 0x72, CHR 0x6F, CHR 0x72, CHR 0x3A, CHR 0x20, CHR 0xE8,
      CHR 0xBE, CHR 0xBE, CHR 0xE5, CHR 0x88, CHR 0xB0, CHR 0xE6, CHR 0x9C, CHR 0x80,
      CHR 0xE5, CHR 0xA4, CHR 0xA7, CHR 0xE9, CHR 0x87, CHR 0x8D, CHR 0xE8, CHR 0xAF,
      CHR 0x95, CHR 0xE6, CHR 0xAC, CHR 0xA1, CHR 0xE6, CHR 0x95, CHR 0xB0, CHR 0xEF,
      CHR 0xBC, CHR 0x8C, CHR 0xE5, CHR 0x81, CHR 0x9C, CHR 0xE6, CHR 0xAD, CHR 0xA2,
      CHR 0xE9, CHR 0x87, CHR 0x8D, CHR 0xE8, CHR 0xAF, CHR 0x95, CHR 0xE3, CHR 0x80,
      CHR 0x82]"

definition RESOLVE_ERROR_PREFIX :: string where
  \<comment> \<open>lines 150 and 151\<close>
  "RESOLVE_ERROR_PREFIX =
     [CHR 0xE8, CHR 0xA7, CHR 0xA3, CHR 0xE6, CHR 0x9E, CHR 0x90, CHR 0xE7, CHR 0xBB,
      CHR 0x93, CHR 0xE6, CHR 0x9E, CHR 0x9C, CHR 0xE5, CHR 0x87, CHR 0xBA, CHR 0xE9,
      CHR 0x94, CHR 0x99, CHR 0x3A, CHR 0x20]"

definition DEBUG_RUNNING :: string where
  \<comment> \<open>line 185\<close>
  "DEBUG_RUNNING =
     [CHR 0x5B, CHR 0x44, CHR 0x65, CHR 0x62, CHR 0x75, CHR 0x67, CHR 0x5D, CHR 0x20,
      CHR 0xE6, CHR 0x89, CHR 0xA7, CHR 0xE8, CHR 0xA1, CHR 0x8C, CHR 0xE7, CHR 0xA8,
      CHR 0x8B, CHR 0xE5, CHR 0xBC, CHR 0x8F, CHR 0xE4, CHR 0xB8, CHR 0xAD, CHR 0xF0,
      CHR 0x9F, CHR 0x96, CHR 0xA5, CHR 0xEF, CHR 0xB8, CHR 0x8F, CHR 0x2E, CHR 0x2E,
      CHR 0x2E]"

definition DEBUG_SCRIPT_ERROR_HEAD :: string where
  \<comment> \<open>line 207, before the error text\<close>
  "DEBUG_SCRIPT_ERROR_HEAD =
     [CHR 0x5B, CHR 0x44, CHR 0x65, CHR 0x62, CHR 0x75, CHR 0x67, CHR 0x5D, CHR 0x20,
      CHR 0xE7, CHR 0xA8, CHR 0x8B, CHR 0xE5, CHR 0xBC, CHR 0x8F, CHR 0xE8, CHR 0xBF,
      CHR 0x90, CHR 0xE8, CHR 0xA1, CHR 0x8C, CHR 0xE5, CHR 0x87, CHR 0xBA, CHR 0xE9,
      CHR 0x94, CHR 0x99, CHR 0x3A, CHR 0x20]"

definition DEBUG_SCRIPT_ERROR_MID :: string where
  \<comment> \<open>line 207, after the error text\<close>
  "DEBUG_SCRIPT_ERROR_MID =
     [CHR 0x0A, CHR 0xE6, CHR 0xAD, CHR 0xA3, CHR 0xE5, CHR 0x9C, CHR 0xA8, CHR 0xE8,
      CHR 0xB0, CHR 0x83, CHR 0xE8, CHR 0xAF, CHR 0x95, CHR 0xE4, CHR 0xB8, CHR 0xAD,
      CHR 0x2E, CHR 0x2E, CHR 0x2E, CHR 0x28]"

definition MAX_RETRY_NOTICE :: string where
  \<comment> \<open>line 211\<close>
  "MAX_RETRY_NOTICE =
     [CHR 0xE7, CHR 0xA8, CHR 0x8B, CHR 0xE5, CHR 0xBC, CHR 0x8F, CHR 0xE8, CHR 0xBF,
      CHR 0x90, CHR 0xE8, CHR 0xA1, CHR 0x8C, CHR 0xE5, CHR 0x87, CHR 0xBA, CHR 0xE9,
      CHR 0x94, CHR 0x99, CHR 0xEF, CHR 0xBC, CHR 0x8C, CHR 0xE8, CHR 0xBE, CHR 0xBE,
      CHR 0xE5, CHR 0x88, CHR 0xB0, CHR 0xE6, CHR 0x9C, CHR 0x80, CHR 0xE5, CHR 0xA4,
      CHR 0xA7, CHR 0xE9, CHR 0x87, CHR 0x8D, CHR 0xE8, CHR 0xAF, CHR 0x95, CHR 0xE6,
      CHR 0xAC, CHR 0xA1, CHR 0xE6, CHR 0x95, CHR 0xB0, CHR 0xEF, CHR 0xBC, CHR 0x8C,
      CHR 0xE5, CHR 0x81, CHR 0x9C, CHR 0xE6, CHR 0xAD, CHR 0xA2, CHR 0xE9, CHR 0x87,
      CHR 0x8D, CHR 0xE8, CHR 0xAF, CHR 0x95, CHR 0xE3, CHR 0x80, CHR 0x82]"

definition IDEOGRAPHIC_FULL_STOP :: string where
  \<comment> \<open>line 111, the last character\<close>
  "IDEOGRAPHIC_FULL_STOP =
     [CHR 0xE3, CHR 0x80, CHR 0x82]"

section \<open>The collaborators and the state of a run\<close>

text \<open>
  The clock, the random source, the message table, the model backend, the response
  resolver, the sandbox and the file system are outside the module. Their answers are
  fields of an environment: the answer to a call depends on its arguments and on
  \<open>tick\<close>, the number of answers read so far, so an environment describes any behaviour
  of the collaborators, one call after the other. \<^verbatim>\<open>CODE_RUN_ERROR_FLAG\<close> is a constant
  of the sandbox module and a field of the environment as well.

  The state of a run holds the counter, the Python lists allocated so far (a list is an
  address; \<open>heap\<close> gives its elements and \<open>heap_next\<close> is the next free address) and the
  trace of the calls made to the collaborators, each with the answer it received.
  Calls of \<^verbatim>\<open>logger.info\<close> are not recorded.
\<close>

datatype event =
    Send_message string string
  | Send_agent_message string string "bool option"
  | Scene_run ChatScene "string + string"
  | Limited_run_code string string string
  | Mr_save ModelResponse string string "string option"
  | Logger_error string

record env =
  CODE_RUN_ERROR_FLAG :: string
  clock :: "nat \<Rightarrow> rat"
  clock_strftime :: "nat \<Rightarrow> string"
  urandom_byte :: "nat \<Rightarrow> nat \<Rightarrow> 8 word"
  db_rows :: "nat \<Rightarrow> DBChatMessage list"
  backend :: "nat \<Rightarrow> ChatScene \<Rightarrow> string + string"
  resolver :: "ModelResponse \<Rightarrow> string + (ChatResponseType \<times> string) list"
  sandbox :: "nat \<Rightarrow> string \<Rightarrow> string \<Rightarrow> string"
  save_raises :: "nat \<Rightarrow> ModelResponse \<Rightarrow> string \<Rightarrow> string \<Rightarrow> string option"

record state =
  tick :: nat
  heap :: "nat \<Rightarrow> prompt_message list"
  heap_next :: nat
  events :: "event list"

definition next_tick :: "state \<Rightarrow> state" where
  "next_tick st = st\<lparr>tick := Suc (tick st)\<rparr>"

definition emit :: "event \<Rightarrow> state \<Rightarrow> state" where
  "emit e st = st\<lparr>events := events st @ [e]\<rparr>"

definition time_time :: "env \<Rightarrow> state \<Rightarrow> rat \<times> state" where
  "time_time env st = (clock env (tick st), next_tick st)"

definition time_strftime :: "env \<Rightarrow> state \<Rightarrow> string \<times> state" where
  \<comment> \<open>\<^verbatim>\<open>time.strftime('%Y%m%d%H%M%S')\<close>\<close>
  "time_strftime env st = (clock_strftime env (tick st), next_tick st)"

definition os_urandom :: "env \<Rightarrow> nat \<Rightarrow> state \<Rightarrow> 8 word list \<times> state" where
  "os_urandom env n st = (map (urandom_byte env (tick st)) [0..<n], next_tick st)"

definition sqa_query_all :: "env \<Rightarrow> state \<Rightarrow> DBChatMessage list \<times> state" where
  \<comment> \<open>the rows of the message table when the query runs\<close>
  "sqa_query_all env st = (db_rows env (tick st), next_tick st)"

definition send_message :: "string \<Rightarrow> string \<Rightarrow> state \<Rightarrow> state" where
  "send_message key txt st = emit (Send_message key txt) st"

definition send_agent_message :: "string \<Rightarrow> string \<Rightarrow> bool option \<Rightarrow> state \<Rightarrow> state" where
  \<comment> \<open>the third argument is \<^verbatim>\<open>record\<close>, \<open>None\<close> when the call does not pass it\<close>
  "send_agent_message key txt record_arg st = emit (Send_agent_message key txt record_arg) st"

definition logger_error :: "string \<Rightarrow> state \<Rightarrow> state" where
  "logger_error txt st = emit (Logger_error txt) st"

definition limited_run_code :: "env \<Rightarrow> string \<Rightarrow> string \<Rightarrow> state \<Rightarrow> string \<times> state" where
  "limited_run_code env code from_chat_key st =
     (let r = sandbox env (tick st) code from_chat_key
      in (r, emit (Limited_run_code code from_chat_key r) (next_tick st)))"

definition mr_save :: "env \<Rightarrow> ModelResponse \<Rightarrow> string \<Rightarrow> string \<Rightarrow> state \<Rightarrow> string option \<times> state" where
  \<comment> \<open>\<^verbatim>\<open>mr.save(prompt_file=..., response_file=...)\<close>; \<open>Some e\<close> when the call raises.\<close>
  "mr_save env mr prompt_file response_file st =
     (let r = save_raises env (tick st) mr prompt_file response_file
      in (r, emit (Mr_save mr prompt_file response_file r) (next_tick st)))"

definition new_list :: "state \<Rightarrow> nat \<times> state" where
  \<comment> \<open>the Python expression \<^verbatim>\<open>[]\<close>: a new, empty list\<close>
  "new_list st =
     (heap_next st, st\<lparr>heap := (heap st)(heap_next st := []), heap_next := Suc (heap_next st)\<rparr>)"

definition list_append :: "nat \<Rightarrow> prompt_message \<Rightarrow> state \<Rightarrow> state" where
  "list_append a m st = st\<lparr>heap := (heap st)(a := heap st a @ [m])\<rparr>"

section \<open>\<^verbatim>\<open>agent_run\<close>, lines 61 to 131: the scene and its prompt\<close>

text \<open>
  The parameter \<^verbatim>\<open>addition_prompt_message\<close> is \<^verbatim>\<open>None\<close> or a list, that is an address.
  \<^verbatim>\<open>if not addition_prompt_message\<close> holds for \<^verbatim>\<open>None\<close> and for an empty list; then the
  name is bound to a new list. The prompt unpacks the list, so it holds the elements the
  list has at that moment. The components of the prompt library are constructors here: the
  model never looks into the text they render.
\<close>

definition agent_run_scene ::
  "config \<Rightarrow> ChatMessage \<Rightarrow> string \<Rightarrow> DBChatMessage list \<Rightarrow> prompt_message list \<Rightarrow> ChatScene" where
  "agent_run_scene cfg chat_message one_time_code recent addition =
     (let scene_store =
            \<lparr>store_chat_key = chat_key chat_message,
             store_chat_preset = AI_CHAT_PRESET_SETTING cfg,
             store_one_time_code = one_time_code\<rparr>;
          chat_history_component = ChatHistoryComponent one_time_code recent
      in \<lparr>store = scene_store,
          prompt_creator =
            \<lparr>messages =
               [SystemMessage
                  [TextComponent ''Character Stetting For You: {chat_preset}'' scene_store,
                   ChatResponseResolver_example one_time_code]
                  [CHR 0x0A, CHR 0x0A],
                UserMessage
                  [TextComponent ''Current Chat Key: {chat_key}'' scene_store,
                   chat_history_component,
                   Str (''Please refer to the above information, strictly follow the reply requirements, and do not bring any irrelevant information''
                        @ IDEOGRAPHIC_FULL_STOP)]]
               @ addition,
             temperature = 3 / 10,
             presence_penalty = 3 / 10,
             frequency_penalty = 4 / 10\<rparr>\<rparr>)"

definition agent_run_setup ::
  "config \<Rightarrow> env \<Rightarrow> ChatMessage \<Rightarrow> nat option \<Rightarrow> state \<Rightarrow> (ChatScene \<times> nat) \<times> state" where
  "agent_run_setup cfg env chat_message addition_prompt_message st0 =
     (let (sta_timestamp, st1) = time_time env st0;
          (rnd, st2) = os_urandom env 4 st1;
          one_time_code = bytes_hex rnd;
          (addition, st3) =
             (case addition_prompt_message of
                None \<Rightarrow> new_list st2
              | Some a \<Rightarrow> if heap st2 a = [] then new_list st2 else (a, st2));
          st4 = (if DEBUG_IN_CHAT cfg
                 then send_message (chat_key chat_message) DEBUG_THINKING st3 else st3);
          (now, st5) = time_time env st4;
          (rows, st6) = sqa_query_all env st5;
          recent = recent_chat_messages cfg rows (chat_key chat_message) now
      in ((agent_run_scene cfg chat_message one_time_code recent (heap st6 addition),
           addition), st6))"

section \<open>\<^verbatim>\<open>agent_run\<close>, lines 134 to 161: model call, resolution, saved files\<close>

text \<open>
  The \<^verbatim>\<open>for ... else\<close> loop of line 134 runs \<^verbatim>\<open>range(n)\<close>, which is empty for a negative
  \<open>n\<close>: the number of attempts is \<open>nat n\<close>. An attempt that raises is logged and the
  loop goes on; \<open>None\<close> is the exhausted loop, the \<^verbatim>\<open>else\<close> branch. The call of the
  resolver is inside \<^verbatim>\<open>try\<close>, the two calls of \<^verbatim>\<open>mr.save\<close> are not: what they raise
  leaves \<^verbatim>\<open>agent_run\<close>.
\<close>

definition llm_api_error :: "string \<Rightarrow> string" where
  \<comment> \<open>line 140: the text logged for a failed attempt\<close>
  "llm_api_error e = ''LLM API error: '' @ e"

definition resolve_error :: "string \<Rightarrow> string" where
  \<comment> \<open>lines 150 and 151: the text logged and raised for a response that does not resolve\<close>
  "resolve_error e = RESOLVE_ERROR_PREFIX @ e"

fun scene_run_attempts ::
  "env \<Rightarrow> ChatScene \<Rightarrow> nat \<Rightarrow> state \<Rightarrow> ModelResponse option \<times> state" where
  "scene_run_attempts env scene 0 st = (None, st)"
| "scene_run_attempts env scene (Suc n) st =
     (let r = backend env (tick st) scene;
          st1 = emit (Scene_run scene r) (next_tick st)
      in case r of
           Inr raw \<Rightarrow> (Some \<lparr>mr_scene = scene, response_text = raw\<rparr>, st1)
         | Inl e \<Rightarrow>
             scene_run_attempts env scene n (logger_error (llm_api_error e) st1))"

definition LATEST_PROMPT_FILE :: string where
  "LATEST_PROMPT_FILE = ''.temp/chat_prompt-latest.txt''"

definition LATEST_RESPONSE_FILE :: string where
  "LATEST_RESPONSE_FILE = ''.temp/chat_response-latest.json''"

definition archive_prompt_file :: "string \<Rightarrow> string" where
  \<comment> \<open>line 159, for the formatted time \<open>t\<close>\<close>
  "archive_prompt_file t = ''.temp/prompts/chat_prompt-'' @ t @ ''.txt''"

definition archive_response_file :: "string \<Rightarrow> string" where
  \<comment> \<open>line 160\<close>
  "archive_response_file t = ''.temp/prompts/chat_response-'' @ t @ ''.json''"

definition agent_run_save :: "env \<Rightarrow> ModelResponse \<Rightarrow> state \<Rightarrow> (error + unit) \<times> state" where
  "agent_run_save env mr st0 =
     (let (r1, st1) = mr_save env mr LATEST_PROMPT_FILE LATEST_RESPONSE_FILE st0
      in case r1 of
           Some e \<Rightarrow> (Inl (Exception e), st1)
         | None \<Rightarrow>
            (let (t1, st2) = time_strftime env st1;
                 (t2, st3) = time_strftime env st2;
                 (r2, st4) =
                   mr_save env mr (archive_prompt_file t1) (archive_response_file t2) st3
             in case r2 of
                  Some e \<Rightarrow> (Inl (Exception e), st4)
                | None \<Rightarrow> (Inr (), st4)))"

definition agent_run_prepare ::
  "config \<Rightarrow> env \<Rightarrow> ChatMessage \<Rightarrow> nat option \<Rightarrow> state \<Rightarrow>
     (error + (ChatResponseType \<times> string) list \<times> nat) \<times> state" where
  "agent_run_prepare cfg env chat_message addition_prompt_message st0 =
     (let ((scene, addition), st1) = agent_run_setup cfg env chat_message addition_prompt_message st0;
          (mr_opt, st2) =
             scene_run_attempts env scene (nat (AI_CHAT_LLM_API_MAX_RETRIES cfg)) st1
      in case mr_opt of
           None \<Rightarrow>
             (Inl (SceneRuntimeError LLM_API_FATAL),
              send_agent_message (chat_key chat_message) LLM_API_APOLOGY None st2)
         | Some mr \<Rightarrow>
            (case resolver env mr of
               Inl e \<Rightarrow>
                 (Inl (ResolveError (resolve_error e)), logger_error (resolve_error e) st2)
             | Inr ret_list \<Rightarrow>
                (case agent_run_save env mr st2 of
                   (Inl e, st3) \<Rightarrow> (Inl e, st3)
                 | (Inr u, st3) \<Rightarrow> (Inr (ret_list, addition), st3))))"

section \<open>\<^verbatim>\<open>agent_exec_result\<close> and the loop over the resolved actions\<close>

text \<open>
  \<^verbatim>\<open>agent_run\<close> is \<open>agent_run_prepare\<close> (lines 61 to 161), the loop of line 164 over the
  resolved actions (\<open>agent_run_actions\<close>), and the clock reading of line 167. An exception
  is a result \<open>Inl\<close>; it ends the loop and the invocation, and it passes through
  \<^verbatim>\<open>agent_exec_result\<close>, which has no \<^verbatim>\<open>try\<close>. The three functions call each other:
  \<^verbatim>\<open>agent_exec_result\<close> enters \<^verbatim>\<open>agent_run\<close> again only while \<open>retry_depth\<close> is below
  the configured maximum, and with a depth one higher, which is what the termination proof
  measures.
\<close>

definition retry_instruction :: "string \<Rightarrow> string" where
  \<comment> \<open>line 193\<close>
  "retry_instruction err_msg =
     ''Code run error: '' @ py_or err_msg ''No error message'' @ [CHR 0x0A]
     @ ''Please maintain agreed reply format and try again.''"

definition give_up_instruction :: "string \<Rightarrow> string" where
  \<comment> \<open>line 199\<close>
  "give_up_instruction err_msg =
     ''Code run error: '' @ py_or err_msg ''No error message'' @ [CHR 0x0A]
     @ ''The number of retries has reached the limit, you should give up retries and explain the problem you are experiencing.''"

definition debug_script_error :: "config \<Rightarrow> string \<Rightarrow> int \<Rightarrow> string" where
  \<comment> \<open>line 207\<close>
  "debug_script_error cfg err_msg retry_depth =
     DEBUG_SCRIPT_ERROR_HEAD @ py_or err_msg ''No error message'' @ DEBUG_SCRIPT_ERROR_MID
     @ str_int (retry_depth + 1) @ ''/'' @ str_int (AI_SCRIPT_MAX_RETRY_TIMES cfg) @ '')''"

definition script_error_feedback ::
  "config \<Rightarrow> string \<Rightarrow> string \<Rightarrow> nat \<Rightarrow> int \<Rightarrow> state \<Rightarrow> state" where
  \<comment> \<open>lines 189 to 201: the two entries appended after a failed script\<close>
  "script_error_feedback cfg ret_content err_msg addition retry_depth st =
     (let st1 = list_append addition (AiMessage [Str (''script:>'' @ [CHR 0x0A] @ ret_content)]) st
      in if retry_depth < AI_SCRIPT_MAX_RETRY_TIMES cfg - 1
         then list_append addition (UserMessage [Str (retry_instruction err_msg)]) st1
         else list_append addition (UserMessage [Str (give_up_instruction err_msg)]) st1)"

function agent_run ::
    "config \<Rightarrow> env \<Rightarrow> ChatMessage \<Rightarrow> nat option \<Rightarrow> int \<Rightarrow> state \<Rightarrow> (error + unit) \<times> state"
  and agent_run_actions ::
    "config \<Rightarrow> env \<Rightarrow> (ChatResponseType \<times> string) list \<Rightarrow> ChatMessage \<Rightarrow> nat \<Rightarrow> int \<Rightarrow> state
       \<Rightarrow> (error + unit) \<times> state"
  and agent_exec_result ::
    "config \<Rightarrow> env \<Rightarrow> ChatResponseType \<Rightarrow> string \<Rightarrow> ChatMessage \<Rightarrow> nat \<Rightarrow> int \<Rightarrow> state
       \<Rightarrow> (error + unit) \<times> state"
where
  "agent_run cfg env chat_message addition_prompt_message retry_depth st =
     (case agent_run_prepare cfg env chat_message addition_prompt_message st of
        (Inl e, st1) \<Rightarrow> (Inl e, st1)
      | (Inr (ret_list, addition), st1) \<Rightarrow>
          (case agent_run_actions cfg env ret_list chat_message addition retry_depth st1 of
             (Inl e, st2) \<Rightarrow> (Inl e, st2)
           | (Inr u, st2) \<Rightarrow> (Inr (), snd (time_time env st2))))"
| "agent_run_actions cfg env [] chat_message addition retry_depth st = (Inr (), st)"
| "agent_run_actions cfg env (ret_data # rest) chat_message addition retry_depth st =
     (case agent_exec_result cfg env (fst ret_data) (snd ret_data) chat_message addition
             retry_depth st of
        (Inl e, st1) \<Rightarrow> (Inl e, st1)
      | (Inr u, st1) \<Rightarrow> agent_run_actions cfg env rest chat_message addition retry_depth st1)"
| "agent_exec_result cfg env ret_type ret_content chat_message addition retry_depth st =
     (case ret_type of
        TEXT \<Rightarrow>
          (Inr (), send_agent_message (chat_key chat_message) ret_content (Some True) st)
      | SCRIPT \<Rightarrow>
          (let st1 = (if DEBUG_IN_CHAT cfg
                      then send_message (chat_key chat_message) DEBUG_RUNNING st else st);
               (result, st2) = limited_run_code env ret_content (chat_key chat_message) st1
           in if endswith result (CODE_RUN_ERROR_FLAG env)
              then
                (let err_msg = py_slice_to result (- int (length (CODE_RUN_ERROR_FLAG env)));
                     st3 = script_error_feedback cfg ret_content err_msg addition retry_depth st2
                 in if retry_depth < AI_SCRIPT_MAX_RETRY_TIMES cfg
                    then
                      (let st4 = (if DEBUG_IN_CHAT cfg
                                  then send_message (chat_key chat_message)
                                         (debug_script_error cfg err_msg retry_depth) st3
                                  else st3)
                       in agent_run cfg env chat_message (Some addition) (retry_depth + 1) st4)
                    else (Inr (), send_message (chat_key chat_message) MAX_RETRY_NOTICE st3))
              else (Inr (), st2)))"
  by pat_completeness auto

termination
  by (relation "inv_image (less_than <*lex*> less_than <*lex*> less_than)
        (\<lambda>x. case x of
           Inl (cfg, env, cm, apm, d, st) \<Rightarrow> (nat (AI_SCRIPT_MAX_RETRY_TIMES cfg + 1 - d), 2::nat, 0::nat)
         | Inr (Inl (cfg, env, rl, cm, a, d, st)) \<Rightarrow> (nat (AI_SCRIPT_MAX_RETRY_TIMES cfg + 1 - d), 1, length rl)
         | Inr (Inr (cfg, env, rt, rc, cm, a, d, st)) \<Rightarrow> (nat (AI_SCRIPT_MAX_RETRY_TIMES cfg + 1 - d), 0, 0))")
    auto

section \<open>Reading the trace\<close>

fun sent_of :: "event \<Rightarrow> event list" where
  "sent_of (Send_message key txt) = [Send_message key txt]"
| "sent_of (Send_agent_message key txt r) = [Send_agent_message key txt r]"
| "sent_of _ = []"

fun model_call_of :: "event \<Rightarrow> ChatScene list" where
  "model_call_of (Scene_run scene r) = [scene]"
| "model_call_of _ = []"

fun sandbox_run_of :: "event \<Rightarrow> (string \<times> string \<times> string) list" where
  "sandbox_run_of (Limited_run_code code key r) = [(code, key, r)]"
| "sandbox_run_of _ = []"

fun saved_of :: "event \<Rightarrow> (ModelResponse \<times> string \<times> string) list" where
  "saved_of (Mr_save mr prompt_file response_file r) = [(mr, prompt_file, response_file)]"
| "saved_of _ = []"

fun error_log_of :: "event \<Rightarrow> string list" where
  "error_log_of (Logger_error txt) = [txt]"
| "error_log_of _ = []"

definition sent :: "event list \<Rightarrow> event list" where
  \<comment> \<open>the messages sent to a channel, in order\<close>
  "sent evs = concat (map sent_of evs)"

definition model_calls :: "event list \<Rightarrow> ChatScene list" where
  \<comment> \<open>the scenes submitted to the model backend, one per attempt\<close>
  "model_calls evs = concat (map model_call_of evs)"

definition sandbox_runs :: "event list \<Rightarrow> (string \<times> string \<times> string) list" where
  \<comment> \<open>the sandbox calls: script, channel, returned text\<close>
  "sandbox_runs evs = concat (map sandbox_run_of evs)"

definition saved :: "event list \<Rightarrow> (ModelResponse \<times> string \<times> string) list" where
  \<comment> \<open>the calls of \<^verbatim>\<open>mr.save\<close>: response, prompt file, response file\<close>
  "saved evs = concat (map saved_of evs)"

definition error_logs :: "event list \<Rightarrow> string list" where
  "error_logs evs = concat (map error_log_of evs)"

definition failed_runs :: "string \<Rightarrow> event list \<Rightarrow> (string \<times> string \<times> string) list" where
  \<comment> \<open>the sandbox calls whose returned text ends with the error marker\<close>
  "failed_runs flag evs = filter (\<lambda>run. endswith (snd (snd run)) flag) (sandbox_runs evs)"

definition one_time_codes :: "event list \<Rightarrow> string list" where
  \<comment> \<open>the one-time codes of the scenes submitted to the model, one per attempt\<close>
  "one_time_codes evs = map (\<lambda>scene. store_one_time_code (store scene)) (model_calls evs)"

definition one_time_code_at :: "env \<Rightarrow> nat \<Rightarrow> string" where
  \<comment> \<open>\<^verbatim>\<open>os.urandom(4).hex()\<close> when the random source is read at counter \<open>t\<close>\<close>
  "one_time_code_at env t = bytes_hex (map (urandom_byte env t) [0..<4])"

section \<open>The states of a script action\<close>

text \<open>
  The states that \<^verbatim>\<open>agent_exec_result\<close> passes through for a script action, written out:
  after the sandbox has returned (line 186), after the two entries have been appended
  (lines 189 to 201), and when the loop is entered again (line 209).
\<close>

definition script_result :: "env \<Rightarrow> string \<Rightarrow> ChatMessage \<Rightarrow> state \<Rightarrow> string" where
  "script_result env ret_content chat_message st =
     sandbox env (tick st) ret_content (chat_key chat_message)"

definition script_failed :: "env \<Rightarrow> string \<Rightarrow> ChatMessage \<Rightarrow> state \<Rightarrow> bool" where
  "script_failed env ret_content chat_message st \<longleftrightarrow>
     endswith (script_result env ret_content chat_message st) (CODE_RUN_ERROR_FLAG env)"

definition script_err_msg :: "env \<Rightarrow> string \<Rightarrow> ChatMessage \<Rightarrow> state \<Rightarrow> string" where
  "script_err_msg env ret_content chat_message st =
     py_slice_to (script_result env ret_content chat_message st)
       (- int (length (CODE_RUN_ERROR_FLAG env)))"

definition after_script_run :: "config \<Rightarrow> env \<Rightarrow> string \<Rightarrow> ChatMessage \<Rightarrow> state \<Rightarrow> state" where
  "after_script_run cfg env ret_content chat_message st =
     st\<lparr>tick := Suc (tick st),
        events := events st
          @ (if DEBUG_IN_CHAT cfg then [Send_message (chat_key chat_message) DEBUG_RUNNING] else [])
          @ [Limited_run_code ret_content (chat_key chat_message)
               (script_result env ret_content chat_message st)]\<rparr>"

definition script_feedback :: "config \<Rightarrow> env \<Rightarrow> string \<Rightarrow> ChatMessage \<Rightarrow> int \<Rightarrow> state
    \<Rightarrow> prompt_message list" where
  "script_feedback cfg env ret_content chat_message retry_depth st =
     [AiMessage [Str (''script:>'' @ [CHR 0x0A] @ ret_content)],
      UserMessage [Str
        (if retry_depth + 1 < AI_SCRIPT_MAX_RETRY_TIMES cfg
         then retry_instruction (script_err_msg env ret_content chat_message st)
         else give_up_instruction (script_err_msg env ret_content chat_message st))]]"

definition after_script_error ::
  "config \<Rightarrow> env \<Rightarrow> string \<Rightarrow> ChatMessage \<Rightarrow> nat \<Rightarrow> int \<Rightarrow> state \<Rightarrow> state" where
  "after_script_error cfg env ret_content chat_message addition retry_depth st =
     (after_script_run cfg env ret_content chat_message st)
       \<lparr>heap := (heap st)(addition := heap st addition
           @ script_feedback cfg env ret_content chat_message retry_depth st)\<rparr>"

definition before_retry ::
  "config \<Rightarrow> env \<Rightarrow> string \<Rightarrow> ChatMessage \<Rightarrow> nat \<Rightarrow> int \<Rightarrow> state \<Rightarrow> state" where
  "before_retry cfg env ret_content chat_message addition retry_depth st =
     (let st3 = after_script_error cfg env ret_content chat_message addition retry_depth st
      in st3\<lparr>events := events st3
           @ (if DEBUG_IN_CHAT cfg
              then [Send_message (chat_key chat_message)
                      (debug_script_error cfg (script_err_msg env ret_content chat_message st)
                         retry_depth)]
              else [])\<rparr>)"

section \<open>A small installation, for concrete runs\<close>

definition cfg0 :: config where
  "cfg0 =
     \<lparr>DEBUG_IN_CHAT = False,
      AI_CHAT_PRESET_SETTING = ''You are a helpful bot'',
      AI_CHAT_CONTEXT_EXPIRE_SECONDS = 100,
      AI_CHAT_CONTEXT_MAX_LENGTH = 2,
      AI_CHAT_LLM_API_MAX_RETRIES = 3,
      AI_SCRIPT_MAX_RETRY_TIMES = 2\<rparr>"

definition msg0 :: ChatMessage where
  "msg0 = \<lparr>chat_key = ''group_1'', sender_nickname = ''alice''\<rparr>"

definition turn :: "string \<Rightarrow> int \<Rightarrow> string \<Rightarrow> DBChatMessage" where
  "turn key ts txt =
     \<lparr>db_chat_key = key, send_timestamp = ts, db_sender = ''alice'', db_content = txt\<rparr>"

definition rows0 :: "DBChatMessage list" where
  "rows0 =
     [turn ''group_1'' 850 ''too old'',
      turn ''group_1'' 900 ''at the cut-off'',
      turn ''group_2'' 950 ''another channel'',
      turn ''group_1'' 960 ''hello'',
      turn ''group_1'' 990 ''run it'']"

definition env0 :: env where
  \<comment> \<open>every collaborator answers; the model replies with one text action\<close>
  "env0 =
     \<lparr>CODE_RUN_ERROR_FLAG = ''[CODE_RUN_ERROR]'',
      clock = (\<lambda>t. 2001 / 2),
      clock_strftime = (\<lambda>t. ''20240101120000''),
      urandom_byte = (\<lambda>t k. of_nat (16 * t + k)),
      db_rows = (\<lambda>t. rows0),
      backend = (\<lambda>t scene. Inr ''reply''),
      resolver = (\<lambda>mr. Inr [(TEXT, ''Hello'')]),
      sandbox = (\<lambda>t code key. ''done''),
      save_raises = (\<lambda>t mr prompt_file response_file. None)\<rparr>"

definition env_down :: env where
  \<comment> \<open>the model backend fails on every call\<close>
  "env_down = env0\<lparr>backend := (\<lambda>t scene. Inl ''timeout'')\<rparr>"

definition env_unresolved :: env where
  \<comment> \<open>the response does not resolve\<close>
  "env_unresolved = env0\<lparr>resolver := (\<lambda>mr. Inl ''one-time code mismatch'')\<rparr>"

definition env_unsaved :: env where
  \<comment> \<open>writing the files fails\<close>
  "env_unsaved = env0\<lparr>save_raises := (\<lambda>t mr prompt_file response_file. Some ''disk full'')\<rparr>"

definition env_script :: env where
  \<comment> \<open>the model first replies with a script, which fails in the sandbox; once the
     prompt carries the feedback, it replies with a text\<close>
  "env_script =
     env0\<lparr>resolver := (\<lambda>mr.
              if length (messages (prompt_creator (mr_scene mr))) = 2
              then Inr [(SCRIPT, ''run()'')] else Inr [(TEXT, ''sorry'')]),
          sandbox := (\<lambda>t code key. ''boom[CODE_RUN_ERROR]'')\<rparr>"

definition st_start :: state where
  \<comment> \<open>nothing has happened yet; no list is allocated\<close>
  "st_start = \<lparr>tick = 0, heap = (\<lambda>a. []), heap_next = 0, events = []\<rparr>"

definition st_caller :: state where
  \<comment> \<open>the caller holds one list, at address 0, still empty\<close>
  "st_caller = \<lparr>tick = 0, heap = (\<lambda>a. []), heap_next = 1, events = []\<rparr>"

section \<open>Facts about the trace and the model call\<close>

declare agent_run.simps [simp del] agent_exec_result.simps [simp del]

lemmas prim_defs = next_tick_def emit_def time_time_def time_strftime_def os_urandom_def
  sqa_query_all_def send_message_def send_agent_message_def logger_error_def
  limited_run_code_def mr_save_def new_list_def list_append_def

lemma sent_simps [simp]:
  "sent [] = []" "sent (xs @ ys) = sent xs @ sent ys" "sent (e # xs) = sent_of e @ sent xs"
  by (simp_all add: sent_def)

lemma model_calls_simps [simp]:
  "model_calls [] = []" "model_calls (xs @ ys) = model_calls xs @ model_calls ys"
  "model_calls (e # xs) = model_call_of e @ model_calls xs"
  by (simp_all add: model_calls_def)

lemma sandbox_runs_simps [simp]:
  "sandbox_runs [] = []" "sandbox_runs (xs @ ys) = sandbox_runs xs @ sandbox_runs ys"
  "sandbox_runs (e # xs) = sandbox_run_of e @ sandbox_runs xs"
  by (simp_all add: sandbox_runs_def)

lemma saved_simps [simp]:
  "saved [] = []" "saved (xs @ ys) = saved xs @ saved ys"
  "saved (e # xs) = saved_of e @ saved xs"
  by (simp_all add: saved_def)

lemma error_logs_simps [simp]:
  "error_logs [] = []" "error_logs (xs @ ys) = error_logs xs @ error_logs ys"
  "error_logs (e # xs) = error_log_of e @ error_logs xs"
  by (simp_all add: error_logs_def)

lemma failed_runs_simps [simp]:
  "failed_runs flag [] = []"
  "failed_runs flag (xs @ ys) = failed_runs flag xs @ failed_runs flag ys"
  by (simp_all add: failed_runs_def)

lemma agent_run_setup_state:
  "snd (agent_run_setup cfg env cm apm st) =
     (let fresh = (case apm of None \<Rightarrow> True | Some a \<Rightarrow> heap st a = []) in
     st\<lparr>tick := tick st + 4,
        heap := (if fresh then (heap st)(heap_next st := []) else heap st),
        heap_next := (if fresh then Suc (heap_next st) else heap_next st),
        events := events st @
          (if DEBUG_IN_CHAT cfg then [Send_message (chat_key cm) DEBUG_THINKING] else [])\<rparr>)"
  by (simp add: agent_run_setup_def prim_defs Let_def split: prod.splits option.splits)

lemma agent_run_setup_addition:
  "snd (fst (agent_run_setup cfg env cm apm st)) =
     (case apm of None \<Rightarrow> heap_next st
      | Some a \<Rightarrow> if heap st a = [] then heap_next st else a)"
  by (simp add: agent_run_setup_def prim_defs Let_def split: prod.splits option.splits)

lemma agent_run_setup_token:
  "store_one_time_code (store (fst (fst (agent_run_setup cfg env cm apm st)))) =
     one_time_code_at env (Suc (tick st))"
  by (simp add: agent_run_setup_def agent_run_scene_def one_time_code_at_def prim_defs Let_def
      split: prod.splits option.splits)

lemma scene_run_attempts_frame:
  "scene_run_attempts env scene n st = (r, st') \<Longrightarrow>
     heap st' = heap st \<and> heap_next st' = heap_next st \<and> tick st \<le> tick st' \<and>
     sent (events st') = sent (events st) \<and>
     sandbox_runs (events st') = sandbox_runs (events st) \<and>
     saved (events st') = saved (events st)"
proof (induction n arbitrary: st)
  case 0
  then show ?case by simp
next
  case (Suc n)
  show ?case
  proof (cases "backend env (tick st) scene")
    case (Inl e)
    with Suc.prems have
      "scene_run_attempts env scene n
         (logger_error (llm_api_error e)
            (emit (Scene_run scene (Inl e)) (next_tick st))) = (r, st')"
      by (simp add: Let_def)
    from Suc.IH [OF this] show ?thesis by (simp add: prim_defs)
  next
    case (Inr raw)
    with Suc.prems show ?thesis by (auto simp: Let_def prim_defs)
  qed
qed

lemma scene_run_attempts_calls:
  "scene_run_attempts env scene n st = (r, st') \<Longrightarrow>
     \<exists>k\<le>n. model_calls (events st') = model_calls (events st) @ replicate k scene \<and>
           (r = None \<longrightarrow> k = n) \<and> tick st' = tick st + k"
proof (induction n arbitrary: st)
  case 0
  then show ?case by simp
next
  case (Suc n)
  show ?case
  proof (cases "backend env (tick st) scene")
    case (Inl e)
    with Suc.prems have
      "scene_run_attempts env scene n
         (logger_error (llm_api_error e)
            (emit (Scene_run scene (Inl e)) (next_tick st))) = (r, st')"
      by (simp add: Let_def)
    from Suc.IH [OF this] obtain k where k: "k \<le> n"
      "model_calls (events st') = model_calls (events st) @ scene # replicate k scene"
      "r = None \<longrightarrow> k = n" "tick st' = Suc (tick st) + k"
      by (auto simp: prim_defs)
    show ?thesis
      by (rule exI [of _ "Suc k"]) (use k in \<open>simp add: replicate_app_Cons_same\<close>)
  next
    case (Inr raw)
    with Suc.prems show ?thesis
      by (intro exI [of _ 1]) (auto simp: Let_def prim_defs)
  qed
qed

lemma scene_run_attempts_Some:
  "scene_run_attempts env scene n st = (Some mr, st') \<Longrightarrow> mr_scene mr = scene"
  by (induction n arbitrary: st) (auto simp: Let_def split: sum.splits)

lemma scene_run_attempts_down:
  assumes "\<forall>t. isl (backend env t scene)"
  shows "fst (scene_run_attempts env scene n st) = None \<and>
     error_logs (events (snd (scene_run_attempts env scene n st))) =
       error_logs (events st) @
       map (\<lambda>i. llm_api_error (projl (backend env (tick st + i) scene))) [0..<n]"
proof (induction n arbitrary: st)
  case 0
  show ?case by simp
next
  case (Suc n)
  from assms obtain e where e: "backend env (tick st) scene = Inl e"
    by (metis sum.collapse(1))
  have shift: "map (\<lambda>i. llm_api_error (projl (backend env (tick st + i) scene))) [0..<Suc n]
     = (llm_api_error e) #
       map (\<lambda>i. llm_api_error (projl (backend env (Suc (tick st) + i) scene))) [0..<n]"
    by (simp add: upt_conv_Cons map_Suc_upt [symmetric] e del: upt_Suc)
  show ?case
    using Suc.IH [of "logger_error (llm_api_error e)
            (emit (Scene_run scene (Inl e)) (next_tick st))"]
    unfolding shift
    by (simp add: e Let_def del: upt_Suc) (simp add: prim_defs del: upt_Suc)
qed

subsection \<open>The preparation of an invocation, by cases\<close>

lemma agent_run_save_frame:
  "agent_run_save env mr st = (r, st') \<Longrightarrow>
     heap st' = heap st \<and> heap_next st' = heap_next st \<and> tick st \<le> tick st' \<and>
     sent (events st') = sent (events st) \<and>
     sandbox_runs (events st') = sandbox_runs (events st) \<and>
     model_calls (events st') = model_calls (events st)"
  by (auto simp: agent_run_save_def prim_defs Let_def split: prod.splits option.splits)

lemma agent_run_prepare_cases:
  assumes su: "agent_run_setup cfg env cm apm st = ((scene, a), st1)"
  obtains
    (down) st2 where
      "scene_run_attempts env scene (nat (AI_CHAT_LLM_API_MAX_RETRIES cfg)) st1 = (None, st2)"
      "agent_run_prepare cfg env cm apm st =
         (Inl (SceneRuntimeError LLM_API_FATAL),
          send_agent_message (chat_key cm) LLM_API_APOLOGY None st2)"
  | (unresolved) mr st2 e where
      "scene_run_attempts env scene (nat (AI_CHAT_LLM_API_MAX_RETRIES cfg)) st1 = (Some mr, st2)"
      "resolver env mr = Inl e"
      "agent_run_prepare cfg env cm apm st =
         (Inl (ResolveError (resolve_error e)), logger_error (resolve_error e) st2)"
  | (unsaved) mr st2 ret_list e st3 where
      "scene_run_attempts env scene (nat (AI_CHAT_LLM_API_MAX_RETRIES cfg)) st1 = (Some mr, st2)"
      "resolver env mr = Inr ret_list"
      "agent_run_save env mr st2 = (Inl e, st3)"
      "agent_run_prepare cfg env cm apm st = (Inl e, st3)"
  | (ready) mr st2 ret_list st3 where
      "scene_run_attempts env scene (nat (AI_CHAT_LLM_API_MAX_RETRIES cfg)) st1 = (Some mr, st2)"
      "resolver env mr = Inr ret_list"
      "agent_run_save env mr st2 = (Inr (), st3)"
      "agent_run_prepare cfg env cm apm st = (Inr (ret_list, a), st3)"
proof -
  obtain mr_opt st2 where att:
    "scene_run_attempts env scene (nat (AI_CHAT_LLM_API_MAX_RETRIES cfg)) st1 = (mr_opt, st2)"
    by (cases "scene_run_attempts env scene (nat (AI_CHAT_LLM_API_MAX_RETRIES cfg)) st1")
  show thesis
  proof (cases mr_opt)
    case None
    with att su show thesis
      by (intro down [of st2]) (simp_all add: agent_run_prepare_def)
  next
    case (Some mr)
    show thesis
    proof (cases "resolver env mr")
      case (Inl e)
      with att su Some show thesis
        by (intro unresolved [of mr st2 e]) (simp_all add: agent_run_prepare_def)
    next
      case (Inr ret_list)
      obtain r st3 where sv: "agent_run_save env mr st2 = (r, st3)"
        by (cases "agent_run_save env mr st2")
      show thesis
      proof (cases r)
        case (Inl e)
        with att su Some Inr sv show thesis
          by (intro unsaved [of mr st2 ret_list e st3]) (simp_all add: agent_run_prepare_def)
      next
        case (Inr u)
        with att su Some \<open>resolver env mr = Inr ret_list\<close> sv show thesis
          by (intro ready [of mr st2 ret_list st3]) (simp_all add: agent_run_prepare_def)
      qed
    qed
  qed
qed

text \<open>What the preparation leaves alone, and what it may add.\<close>

lemma agent_run_prepare_frame:
  assumes "agent_run_setup cfg env cm apm st = ((scene, a), st1)"
    and "agent_run_prepare cfg env cm apm st = (r, st')"
  shows "heap st' = heap st1" "heap_next st' = heap_next st1" "tick st1 \<le> tick st'"
    "sandbox_runs (events st') = sandbox_runs (events st)"
    "\<And>ret_list a'. r = Inr (ret_list, a') \<Longrightarrow> a' = a"
proof -
  have st1: "st1 = snd (agent_run_setup cfg env cm apm st)"
    by (simp add: assms(1))
  have sb1: "sandbox_runs (events st1) = sandbox_runs (events st)"
    unfolding st1 agent_run_setup_state by (simp add: Let_def)
  have "heap st' = heap st1 \<and> heap_next st' = heap_next st1 \<and> tick st1 \<le> tick st' \<and>
    sandbox_runs (events st') = sandbox_runs (events st1) \<and>
    (\<forall>ret_list a'. r = Inr (ret_list, a') \<longrightarrow> a' = a)"
    using assms(1)
  proof (cases rule: agent_run_prepare_cases)
    case (down st2)
    with assms(2) scene_run_attempts_frame [OF down(1)] show ?thesis
      by (auto simp: prim_defs)
  next
    case (unresolved mr st2 e)
    with assms(2) scene_run_attempts_frame [OF unresolved(1)] show ?thesis
      by (auto simp: prim_defs)
  next
    case (unsaved mr st2 ret_list e st3)
    with assms(2) scene_run_attempts_frame [OF unsaved(1)] agent_run_save_frame [OF unsaved(3)]
    show ?thesis by auto
  next
    case (ready mr st2 ret_list st3)
    with assms(2) scene_run_attempts_frame [OF ready(1)] agent_run_save_frame [OF ready(3)]
    show ?thesis by auto
  qed
  with sb1 show "heap st' = heap st1" "heap_next st' = heap_next st1" "tick st1 \<le> tick st'"
    "sandbox_runs (events st') = sandbox_runs (events st)"
    "\<And>ret_list a'. r = Inr (ret_list, a') \<Longrightarrow> a' = a"
    by auto
qed

lemma agent_run_prepare_calls:
  assumes "agent_run_setup cfg env cm apm st = ((scene, a), st1)"
    and "agent_run_prepare cfg env cm apm st = (r, st')"
  shows "\<exists>k. model_calls (events st') = model_calls (events st) @ replicate k scene"
proof -
  have st1: "st1 = snd (agent_run_setup cfg env cm apm st)"
    by (simp add: assms(1))
  have mc1: "model_calls (events st1) = model_calls (events st)"
    unfolding st1 agent_run_setup_state by (simp add: Let_def)
  from assms(1) show ?thesis
  proof (cases rule: agent_run_prepare_cases)
    case (down st2)
    with assms(2) scene_run_attempts_calls [OF down(1)] mc1 show ?thesis
      by (auto simp: prim_defs)
  next
    case (unresolved mr st2 e)
    with assms(2) scene_run_attempts_calls [OF unresolved(1)] mc1 show ?thesis
      by (auto simp: prim_defs)
  next
    case (unsaved mr st2 ret_list e st3)
    with assms(2) scene_run_attempts_calls [OF unsaved(1)] agent_run_save_frame [OF unsaved(3)] mc1
    show ?thesis by auto
  next
    case (ready mr st2 ret_list st3)
    with assms(2) scene_run_attempts_calls [OF ready(1)] agent_run_save_frame [OF ready(3)] mc1
    show ?thesis by auto
  qed
qed

subsection \<open>The executor, branch by branch\<close>

lemma agent_exec_result_TEXT:
  "agent_exec_result cfg env TEXT c cm a d st =
     (Inr (), st\<lparr>events := events st @ [Send_agent_message (chat_key cm) c (Some True)]\<rparr>)"
  by (simp add: agent_exec_result.simps prim_defs)

lemma agent_exec_result_SCRIPT:
  "agent_exec_result cfg env SCRIPT c cm a d st =
     (if script_failed env c cm st
      then if d < AI_SCRIPT_MAX_RETRY_TIMES cfg
           then agent_run cfg env cm (Some a) (d + 1) (before_retry cfg env c cm a d st)
           else (Inr (), send_message (chat_key cm) MAX_RETRY_NOTICE
                           (after_script_error cfg env c cm a d st))
      else (Inr (), after_script_run cfg env c cm st))"
  by (cases st) (simp add: agent_exec_result.simps script_failed_def script_result_def script_err_msg_def
      after_script_run_def after_script_error_def before_retry_def script_feedback_def
      script_error_feedback_def prim_defs Let_def)

lemma agent_run_stopped:
  "agent_run_prepare cfg env cm apm st = (Inl e, st1) \<Longrightarrow>
     agent_run cfg env cm apm d st = (Inl e, st1)"
  by (simp add: agent_run.simps)

lemma agent_run_ran:
  assumes "agent_run_prepare cfg env cm apm st = (Inr (ret_list, a), st1)"
    and "agent_run_actions cfg env ret_list cm a d st1 = (r, st2)"
  shows "fst (agent_run cfg env cm apm d st) = r"
    "heap (snd (agent_run cfg env cm apm d st)) = heap st2"
    "heap_next (snd (agent_run cfg env cm apm d st)) = heap_next st2"
    "events (snd (agent_run cfg env cm apm d st)) = events st2"
    "tick st2 \<le> tick (snd (agent_run cfg env cm apm d st))"
  using assms by (cases r; simp add: agent_run.simps prim_defs)+

lemma setup_split:
  obtains scene a st1 where "agent_run_setup cfg env cm apm st = ((scene, a), st1)"
  by (metis surj_pair)

lemma agent_run_setup_heap:
  assumes "agent_run_setup cfg env cm apm st = ((scene, a), st1)"
  shows "heap_next st \<le> heap_next st1"
    "apm = Some b \<Longrightarrow> heap st b \<noteq> [] \<Longrightarrow> a = b \<and> heap st1 = heap st \<and> heap_next st1 = heap_next st"
    "(\<And>b. apm = Some b \<Longrightarrow> heap st b = []) \<Longrightarrow>
       a = heap_next st \<and> heap st1 = (heap st)(heap_next st := []) \<and> heap_next st1 = Suc (heap_next st)"
    "tick st1 = tick st + 4"
proof -
  have a: "a = snd (fst (agent_run_setup cfg env cm apm st))"
    and st1: "st1 = snd (agent_run_setup cfg env cm apm st)"
    by (simp_all add: assms)
  show "heap_next st \<le> heap_next st1" "tick st1 = tick st + 4"
    unfolding st1 agent_run_setup_state by (simp_all add: Let_def)
  show "apm = Some b \<Longrightarrow> heap st b \<noteq> [] \<Longrightarrow> a = b \<and> heap st1 = heap st \<and> heap_next st1 = heap_next st"
    unfolding a st1 agent_run_setup_state agent_run_setup_addition by (simp add: Let_def)
  show "(\<And>b. apm = Some b \<Longrightarrow> heap st b = []) \<Longrightarrow>
       a = heap_next st \<and> heap st1 = (heap st)(heap_next st := []) \<and> heap_next st1 = Suc (heap_next st)"
    unfolding a st1 agent_run_setup_state agent_run_setup_addition
    by (cases apm) (simp_all add: Let_def)
qed

text \<open>The induction rule of the three functions, with the states of a script action
  written as above.\<close>

lemma agent_induct [case_names run nil cons exec]:
  assumes run: "\<And>cfg env cm apm d st.
      (\<And>ret_list a st1. agent_run_prepare cfg env cm apm st = (Inr (ret_list, a), st1)
          \<Longrightarrow> Q cfg env ret_list cm a d st1)
      \<Longrightarrow> P cfg env cm apm d st"
    and nil: "\<And>cfg env cm a d st. Q cfg env [] cm a d st"
    and cons: "\<And>cfg env ret_data rest cm a d st.
      R cfg env (fst ret_data) (snd ret_data) cm a d st \<Longrightarrow>
      (\<And>st1. agent_exec_result cfg env (fst ret_data) (snd ret_data) cm a d st = (Inr (), st1)
          \<Longrightarrow> Q cfg env rest cm a d st1)
      \<Longrightarrow> Q cfg env (ret_data # rest) cm a d st"
    and exec: "\<And>cfg env rt rc cm a d st.
      (rt = SCRIPT \<Longrightarrow> script_failed env rc cm st \<Longrightarrow> d < AI_SCRIPT_MAX_RETRY_TIMES cfg
          \<Longrightarrow> P cfg env cm (Some a) (d + 1) (before_retry cfg env rc cm a d st))
      \<Longrightarrow> R cfg env rt rc cm a d st"
  shows "P cfg env cm apm d st"
    and "Q cfg env ret_list cm a d st"
    and "R cfg env rt rc cm a d st"
proof (induction cfg env cm apm d st and cfg env ret_list cm a d st and cfg env rt rc cm a d st
    rule: agent_run_agent_run_actions_agent_exec_result.induct)
  case (1 cfg env cm apm d st)
  show ?case
  proof (rule run)
    fix ret_list a st1
    assume "agent_run_prepare cfg env cm apm st = (Inr (ret_list, a), st1)"
    from "1.IH" [OF this [symmetric] refl refl] show "Q cfg env ret_list cm a d st1" .
  qed
next
  case (2 cfg env cm a d st)
  show ?case by (rule nil)
next
  case (3 cfg env ret_data rest cm a d st)
  show ?case
  proof (rule cons)
    show "R cfg env (fst ret_data) (snd ret_data) cm a d st" by (rule "3.IH"(1))
  next
    fix st1
    assume "agent_exec_result cfg env (fst ret_data) (snd ret_data) cm a d st = (Inr (), st1)"
    from "3.IH"(2) [OF this [symmetric] refl] show "Q cfg env rest cm a d st1" .
  qed
next
  case (4 cfg env rt rc cm a d st)
  show ?case
  proof (rule exec)
    assume h: "rt = SCRIPT" "script_failed env rc cm st" "d < AI_SCRIPT_MAX_RETRY_TIMES cfg"
    let ?x = "if DEBUG_IN_CHAT cfg then send_message (chat_key cm) DEBUG_RUNNING st else st"
    have e: "endswith (fst (limited_run_code env rc (chat_key cm) ?x)) (CODE_RUN_ERROR_FLAG env)"
      using h(2) by (simp add: script_failed_def script_result_def prim_defs Let_def)
    let ?xa = "limited_run_code env rc (chat_key cm) ?x"
    let ?xc = "py_slice_to (fst ?xa) (- int (length (CODE_RUN_ERROR_FLAG env)))"
    let ?xd = "script_error_feedback cfg rc ?xc a d (snd ?xa)"
    let ?xe = "if DEBUG_IN_CHAT cfg
      then send_message (chat_key cm) (debug_script_error cfg ?xc d) ?xd else ?xd"
    have eq: "before_retry cfg env rc cm a d st = ?xe"
      by (cases st)
        (simp add: script_result_def script_err_msg_def after_script_run_def
          after_script_error_def before_retry_def script_feedback_def script_error_feedback_def
          prim_defs Let_def)
    from "4.IH" [OF h(1) refl refl prod.collapse e refl refl h(3) refl]
    show "P cfg env cm (Some a) (d + 1) (before_retry cfg env rc cm a d st)"
      unfolding eq .
  qed
qed

section \<open>Invariants of the retry chain\<close>

subsection \<open>Lists of the caller are left alone\<close>

lemma frame_trans:
  "\<lbrakk>n0 \<le> n1; \<forall>b<n0. b \<noteq> a \<longrightarrow> h1 b = h0 b; n1 \<le> n2;
    \<forall>b<n1. b \<noteq> a \<longrightarrow> h2 b = h1 b\<rbrakk>
   \<Longrightarrow> n0 \<le> (n2::nat) \<and> (\<forall>b<n0. b \<noteq> a \<longrightarrow> h2 b = h0 b)"
  by (simp add: less_le_trans)

lemma heap_frame:
  shows heap_frame_run:
    "heap_next st \<le> heap_next (snd (agent_run cfg env cm apm d st)) \<and>
     (\<forall>b<heap_next st. \<not> (apm = Some b \<and> heap st b \<noteq> []) \<longrightarrow>
        heap (snd (agent_run cfg env cm apm d st)) b = heap st b)"
  and heap_frame_actions:
    "heap_next st \<le> heap_next (snd (agent_run_actions cfg env rl cm a d st)) \<and>
     (\<forall>b<heap_next st. b \<noteq> a \<longrightarrow>
        heap (snd (agent_run_actions cfg env rl cm a d st)) b = heap st b)"
  and heap_frame_exec:
    "heap_next st \<le> heap_next (snd (agent_exec_result cfg env rt rc cm a d st)) \<and>
     (\<forall>b<heap_next st. b \<noteq> a \<longrightarrow>
        heap (snd (agent_exec_result cfg env rt rc cm a d st)) b = heap st b)"
proof -
  let ?P = "\<lambda>cfg env cm apm d st.
     heap_next st \<le> heap_next (snd (agent_run cfg env cm apm d st)) \<and>
     (\<forall>b<heap_next st. \<not> (apm = Some b \<and> heap st b \<noteq> []) \<longrightarrow>
        heap (snd (agent_run cfg env cm apm d st)) b = heap st b)"
  let ?Q = "\<lambda>cfg env rl cm a d st.
     heap_next st \<le> heap_next (snd (agent_run_actions cfg env rl cm a d st)) \<and>
     (\<forall>b<heap_next st. b \<noteq> a \<longrightarrow>
        heap (snd (agent_run_actions cfg env rl cm a d st)) b = heap st b)"
  let ?R = "\<lambda>cfg env rt rc cm a d st.
     heap_next st \<le> heap_next (snd (agent_exec_result cfg env rt rc cm a d st)) \<and>
     (\<forall>b<heap_next st. b \<noteq> a \<longrightarrow>
        heap (snd (agent_exec_result cfg env rt rc cm a d st)) b = heap st b)"
  have run: "?P cfg env cm apm d st"
    if IH: "\<And>ret_list a st1. agent_run_prepare cfg env cm apm st = (Inr (ret_list, a), st1)
          \<Longrightarrow> ?Q cfg env ret_list cm a d st1"
    for cfg env cm apm d st
  proof -
    obtain scene a st0 where su: "agent_run_setup cfg env cm apm st = ((scene, a), st0)"
      by (rule setup_split)
    obtain r st1 where pr: "agent_run_prepare cfg env cm apm st = (r, st1)"
      by (cases "agent_run_prepare cfg env cm apm st")
    note fr = agent_run_prepare_frame [OF su pr]
    note sh = agent_run_setup_heap [OF su]
    have base: "heap_next st \<le> heap_next st1 \<and>
      (\<forall>b<heap_next st. \<not> (apm = Some b \<and> heap st b \<noteq> []) \<longrightarrow> heap st1 b = heap st b)"
    proof (cases "\<exists>b. apm = Some b \<and> heap st b \<noteq> []")
      case True
      then obtain b where b: "apm = Some b" "heap st b \<noteq> []" by blast
      from sh(2) [OF b] have "heap st0 = heap st" "heap_next st0 = heap_next st" by simp_all
      then show ?thesis by (simp add: fr(1,2))
    next
      case False
      then have "\<And>b. apm = Some b \<Longrightarrow> heap st b = []" by blast
      from sh(3) [OF this]
      have "heap st0 = (heap st)(heap_next st := [])" "heap_next st0 = Suc (heap_next st)"
        by simp_all
      then show ?thesis by (simp add: fr(1,2))
    qed
    show ?thesis
    proof (cases r)
      case (Inl e)
      with pr have "agent_run cfg env cm apm d st = (Inl e, st1)"
        by (simp add: agent_run_stopped)
      with base show ?thesis by simp
    next
      case (Inr p)
      obtain ret_list a' where p: "p = (ret_list, a')" by (cases p)
      with fr(5) Inr have a': "a' = a" by simp
      from pr Inr p a' have pr': "agent_run_prepare cfg env cm apm st = (Inr (ret_list, a), st1)"
        by simp
      obtain r2 st2 where ac: "agent_run_actions cfg env ret_list cm a d st1 = (r2, st2)"
        by (cases "agent_run_actions cfg env ret_list cm a d st1")
      note rn = agent_run_ran [OF pr' ac]
      from IH [OF pr'] ac
      have ih: "heap_next st1 \<le> heap_next st2"
        "\<forall>b<heap_next st1. b \<noteq> a \<longrightarrow> heap st2 b = heap st1 b"
        by simp_all
      show ?thesis
      proof (cases "\<exists>b. apm = Some b \<and> heap st b \<noteq> []")
        case True
        then obtain b where b: "apm = Some b" "heap st b \<noteq> []" by blast
        from sh(2) [OF b] have f: "a = b" "heap st0 = heap st" "heap_next st0 = heap_next st"
          by simp_all
        have "heap st2 c = heap st c" if "c < heap_next st" "c \<noteq> b" for c
          using ih(2) [rule_format, of c] that f fr(1,2) by simp
        with ih(1) f fr(1,2) b show ?thesis unfolding rn(2,3) by auto
      next
        case False
        then have "\<And>b. apm = Some b \<Longrightarrow> heap st b = []" by blast
        from sh(3) [OF this]
        have f: "a = heap_next st" "heap st0 = (heap st)(heap_next st := [])"
          "heap_next st0 = Suc (heap_next st)"
          by simp_all
        have "heap st2 b = heap st b" if "b < heap_next st" for b
          using ih(2) [rule_format, of b] that f fr(1,2) by simp
        with ih(1) f(3) fr(2) show ?thesis unfolding rn(2,3) by simp
      qed
    qed
  qed
  have nil: "?Q cfg env [] cm a d st" for cfg env cm a d st
    by simp
  have cons: "?Q cfg env (ret_data # rest) cm a d st"
    if IH1: "?R cfg env (fst ret_data) (snd ret_data) cm a d st"
      and IH2: "\<And>st1. agent_exec_result cfg env (fst ret_data) (snd ret_data) cm a d st
           = (Inr (), st1) \<Longrightarrow> ?Q cfg env rest cm a d st1"
    for cfg env ret_data rest cm a d st
  proof -
    obtain r1 st1 where ex:
      "agent_exec_result cfg env (fst ret_data) (snd ret_data) cm a d st = (r1, st1)"
      by (cases "agent_exec_result cfg env (fst ret_data) (snd ret_data) cm a d st")
    from IH1 ex have h1: "heap_next st \<le> heap_next st1"
      "\<forall>b<heap_next st. b \<noteq> a \<longrightarrow> heap st1 b = heap st b"
      by simp_all
    show ?thesis
    proof (cases r1)
      case (Inl e)
      with ex h1 show ?thesis by simp
    next
      case (Inr u)
      with ex have ex': "agent_exec_result cfg env (fst ret_data) (snd ret_data) cm a d st
           = (Inr (), st1)" by simp
      from IH2 [OF ex']
      have h2: "heap_next st1 \<le> heap_next (snd (agent_run_actions cfg env rest cm a d st1))"
        "\<forall>b<heap_next st1. b \<noteq> a \<longrightarrow>
            heap (snd (agent_run_actions cfg env rest cm a d st1)) b = heap st1 b"
        by simp_all
      have "agent_run_actions cfg env (ret_data # rest) cm a d st =
          agent_run_actions cfg env rest cm a d st1"
        using ex' by simp
      with frame_trans [OF h1 h2] show ?thesis by simp
    qed
  qed
  have exec: "?R cfg env rt rc cm a d st"
    if IH: "rt = SCRIPT \<Longrightarrow> script_failed env rc cm st \<Longrightarrow> d < AI_SCRIPT_MAX_RETRY_TIMES cfg
          \<Longrightarrow> ?P cfg env cm (Some a) (d + 1) (before_retry cfg env rc cm a d st)"
    for cfg env rt rc cm a d st
  proof (cases rt)
    case TEXT
    then show ?thesis by (simp add: agent_exec_result_TEXT)
  next
    case SCRIPT
    show ?thesis
    proof (cases "script_failed env rc cm st \<and> d < AI_SCRIPT_MAX_RETRY_TIMES cfg")
      case False
      with SCRIPT show ?thesis
        by (auto simp: agent_exec_result_SCRIPT after_script_run_def after_script_error_def
            prim_defs)
    next
      case True
      have bh: "heap (before_retry cfg env rc cm a d st) a \<noteq> []"
        "heap_next (before_retry cfg env rc cm a d st) = heap_next st"
        "\<And>b. b \<noteq> a \<Longrightarrow> heap (before_retry cfg env rc cm a d st) b = heap st b"
        by (simp_all add: before_retry_def after_script_error_def after_script_run_def
            script_feedback_def Let_def)
      have eq: "agent_exec_result cfg env rt rc cm a d st =
          agent_run cfg env cm (Some a) (d + 1) (before_retry cfg env rc cm a d st)"
        using True SCRIPT by (simp add: agent_exec_result_SCRIPT)
      from IH [OF SCRIPT] True bh show ?thesis unfolding eq by auto
    qed
  qed
  note ind = agent_induct [of ?Q ?P ?R, OF run nil cons exec]
  show "?P cfg env cm apm d st" by (rule ind(1))
  show "?Q cfg env rl cm a d st" by (rule ind(2))
  show "?R cfg env rt rc cm a d st" by (rule ind(3))
qed

subsection \<open>Two entries for each failed script\<close>

lemma failed_runs_cong:
  "sandbox_runs evs = sandbox_runs evs' \<Longrightarrow> failed_runs flag evs = failed_runs flag evs'"
  by (simp add: failed_runs_def)

lemma grown_trans:
  assumes "\<exists>m. (h1::'a list) = h0 @ m \<and> length m + 2 * f0 = 2 * (f1::nat)"
    and "\<exists>m. h2 = h1 @ m \<and> length m + 2 * f1 = 2 * (f2::nat)"
  shows "\<exists>m. h2 = h0 @ m \<and> length m + 2 * f0 = 2 * f2"
proof -
  from assms obtain m1 m2 where "h1 = h0 @ m1" "length m1 + 2 * f0 = 2 * f1"
    "h2 = h1 @ m2" "length m2 + 2 * f1 = 2 * f2" by blast
  then have "h2 = h0 @ (m1 @ m2) \<and> length (m1 @ m2) + 2 * f0 = 2 * f2" by simp
  then show ?thesis by blast
qed

lemma before_retry_grown:
  assumes "script_failed env rc cm st"
  shows "heap (before_retry cfg env rc cm a d st) a
      = heap st a @ script_feedback cfg env rc cm d st"
    "failed_runs (CODE_RUN_ERROR_FLAG env) (events (before_retry cfg env rc cm a d st))
      = failed_runs (CODE_RUN_ERROR_FLAG env) (events st)
        @ [(rc, chat_key cm, script_result env rc cm st)]"
    "heap (after_script_error cfg env rc cm a d st) a
      = heap st a @ script_feedback cfg env rc cm d st"
    "failed_runs (CODE_RUN_ERROR_FLAG env) (events (after_script_error cfg env rc cm a d st))
      = failed_runs (CODE_RUN_ERROR_FLAG env) (events st)
        @ [(rc, chat_key cm, script_result env rc cm st)]"
  using assms
  by (simp_all add: before_retry_def after_script_error_def after_script_run_def Let_def
      failed_runs_def script_failed_def)

lemma after_script_run_kept:
  assumes "\<not> script_failed env rc cm st"
  shows "failed_runs (CODE_RUN_ERROR_FLAG env) (events (after_script_run cfg env rc cm st))
      = failed_runs (CODE_RUN_ERROR_FLAG env) (events st)"
    "heap (after_script_run cfg env rc cm st) = heap st"
  using assms
  by (simp_all add: after_script_run_def failed_runs_def script_failed_def)

lemma additions_grow:
  shows additions_grow_run:
    "apm = Some a \<and> heap st a \<noteq> [] \<longrightarrow>
     (\<exists>more. heap (snd (agent_run cfg env cm apm d st)) a = heap st a @ more \<and>
        length more + 2 * length (failed_runs (CODE_RUN_ERROR_FLAG env) (events st)) =
        2 * length (failed_runs (CODE_RUN_ERROR_FLAG env)
                      (events (snd (agent_run cfg env cm apm d st)))))"
  and additions_grow_actions:
    "\<exists>more. heap (snd (agent_run_actions cfg env rl cm a d st)) a = heap st a @ more \<and>
        length more + 2 * length (failed_runs (CODE_RUN_ERROR_FLAG env) (events st)) =
        2 * length (failed_runs (CODE_RUN_ERROR_FLAG env)
                      (events (snd (agent_run_actions cfg env rl cm a d st))))"
  and additions_grow_exec:
    "\<exists>more. heap (snd (agent_exec_result cfg env rt rc cm a d st)) a = heap st a @ more \<and>
        length more + 2 * length (failed_runs (CODE_RUN_ERROR_FLAG env) (events st)) =
        2 * length (failed_runs (CODE_RUN_ERROR_FLAG env)
                      (events (snd (agent_exec_result cfg env rt rc cm a d st))))"
proof -
  let ?G = "\<lambda>env a st st'. \<exists>more. heap st' a = heap st a @ more \<and>
        length more + 2 * length (failed_runs (CODE_RUN_ERROR_FLAG env) (events st)) =
        2 * length (failed_runs (CODE_RUN_ERROR_FLAG env) (events st'))"
  let ?P = "\<lambda>cfg env cm apm d st. \<forall>a. apm = Some a \<and> heap st a \<noteq> [] \<longrightarrow>
     ?G env a st (snd (agent_run cfg env cm apm d st))"
  let ?Q = "\<lambda>cfg env rl cm a d st. ?G env a st (snd (agent_run_actions cfg env rl cm a d st))"
  let ?R = "\<lambda>cfg env rt rc cm a d st.
     ?G env a st (snd (agent_exec_result cfg env rt rc cm a d st))"
  have run: "?P cfg env cm apm d st"
    if IH: "\<And>ret_list a st1. agent_run_prepare cfg env cm apm st = (Inr (ret_list, a), st1)
          \<Longrightarrow> ?Q cfg env ret_list cm a d st1"
    for cfg env cm apm d st
  proof (intro allI impI)
    fix b
    assume b: "apm = Some b \<and> heap st b \<noteq> []"
    obtain scene a st0 where su: "agent_run_setup cfg env cm apm st = ((scene, a), st0)"
      by (rule setup_split)
    obtain r st1 where pr: "agent_run_prepare cfg env cm apm st = (r, st1)"
      by (cases "agent_run_prepare cfg env cm apm st")
    note fr = agent_run_prepare_frame [OF su pr]
    from agent_run_setup_heap(2) [OF su] b have f: "a = b" "heap st0 = heap st" by simp_all
    have base: "heap st1 b = heap st b"
      "failed_runs (CODE_RUN_ERROR_FLAG env) (events st1)
        = failed_runs (CODE_RUN_ERROR_FLAG env) (events st)"
      using fr(1) f(2) failed_runs_cong [OF fr(4)] by simp_all
    show "?G env b st (snd (agent_run cfg env cm apm d st))"
    proof (cases r)
      case (Inl e)
      with pr have "agent_run cfg env cm apm d st = (Inl e, st1)"
        by (simp add: agent_run_stopped)
      with base show ?thesis by simp
    next
      case (Inr p)
      obtain ret_list a' where p: "p = (ret_list, a')" by (cases p)
      with fr(5) Inr have a': "a' = a" by simp
      from pr Inr p a' have pr': "agent_run_prepare cfg env cm apm st = (Inr (ret_list, a), st1)"
        by simp
      obtain r2 st2 where ac: "agent_run_actions cfg env ret_list cm a d st1 = (r2, st2)"
        by (cases "agent_run_actions cfg env ret_list cm a d st1")
      note rn = agent_run_ran [OF pr' ac]
      from IH [OF pr'] ac have "?G env a st1 st2" by simp
      with base f(1) show ?thesis unfolding rn(2,4) by simp
    qed
  qed
  have nil: "?Q cfg env [] cm a d st" for cfg env cm a d st
    by simp
  have cons: "?Q cfg env (ret_data # rest) cm a d st"
    if IH1: "?R cfg env (fst ret_data) (snd ret_data) cm a d st"
      and IH2: "\<And>st1. agent_exec_result cfg env (fst ret_data) (snd ret_data) cm a d st
           = (Inr (), st1) \<Longrightarrow> ?Q cfg env rest cm a d st1"
    for cfg env ret_data rest cm a d st
  proof -
    obtain r1 st1 where ex:
      "agent_exec_result cfg env (fst ret_data) (snd ret_data) cm a d st = (r1, st1)"
      by (cases "agent_exec_result cfg env (fst ret_data) (snd ret_data) cm a d st")
    from IH1 ex have h1: "?G env a st st1" by simp
    show ?thesis
    proof (cases r1)
      case (Inl e)
      with ex h1 show ?thesis by simp
    next
      case (Inr u)
      with ex have ex': "agent_exec_result cfg env (fst ret_data) (snd ret_data) cm a d st
           = (Inr (), st1)" by simp
      have eq: "agent_run_actions cfg env (ret_data # rest) cm a d st =
          agent_run_actions cfg env rest cm a d st1"
        using ex' by simp
      from grown_trans [OF h1 IH2 [OF ex']] show ?thesis unfolding eq .
    qed
  qed
  have exec: "?R cfg env rt rc cm a d st"
    if IH: "rt = SCRIPT \<Longrightarrow> script_failed env rc cm st \<Longrightarrow> d < AI_SCRIPT_MAX_RETRY_TIMES cfg
          \<Longrightarrow> ?P cfg env cm (Some a) (d + 1) (before_retry cfg env rc cm a d st)"
    for cfg env rt rc cm a d st
  proof (cases rt)
    case TEXT
    then show ?thesis by (simp add: agent_exec_result_TEXT failed_runs_def)
  next
    case SCRIPT
    show ?thesis
    proof (cases "script_failed env rc cm st")
      case False
      with SCRIPT after_script_run_kept [OF False] show ?thesis
        by (simp add: agent_exec_result_SCRIPT)
    next
      case failed: True
      note g = before_retry_grown [OF failed, of cfg a d]
      have two: "length (script_feedback cfg env rc cm d st) = 2"
        by (simp add: script_feedback_def)
      show ?thesis
      proof (cases "d < AI_SCRIPT_MAX_RETRY_TIMES cfg")
        case False
        with SCRIPT failed g(3,4) two show ?thesis
          by (simp add: agent_exec_result_SCRIPT send_message_def emit_def failed_runs_def)
      next
        case True
        have eq: "agent_exec_result cfg env rt rc cm a d st =
            agent_run cfg env cm (Some a) (d + 1) (before_retry cfg env rc cm a d st)"
          using True SCRIPT failed by (simp add: agent_exec_result_SCRIPT)
        have ne: "heap (before_retry cfg env rc cm a d st) a \<noteq> []"
          unfolding g(1) by (simp add: script_feedback_def)
        from IH [OF SCRIPT failed True] ne
        have "?G env a (before_retry cfg env rc cm a d st)
            (snd (agent_run cfg env cm (Some a) (d + 1) (before_retry cfg env rc cm a d st)))"
          by simp
        moreover have "?G env a st (before_retry cfg env rc cm a d st)"
          unfolding g(1,2) using two by simp
        ultimately show ?thesis unfolding eq by (rule grown_trans [rotated])
      qed
    qed
  qed
  note ind = agent_induct [of ?Q ?P ?R, OF run nil cons exec]
  from ind(1) show "apm = Some a \<and> heap st a \<noteq> [] \<longrightarrow>
     ?G env a st (snd (agent_run cfg env cm apm d st))" by blast
  show "?Q cfg env rl cm a d st" by (rule ind(2))
  show "?R cfg env rt rc cm a d st" by (rule ind(3))
qed

subsection \<open>Every invocation reads its own one-time code\<close>

lemma before_retry_calls:
  "model_calls (events (before_retry cfg env rc cm a d st)) = model_calls (events st)"
  "tick (before_retry cfg env rc cm a d st) = Suc (tick st)"
  "model_calls (events (after_script_error cfg env rc cm a d st)) = model_calls (events st)"
  "tick (after_script_error cfg env rc cm a d st) = Suc (tick st)"
  "model_calls (events (after_script_run cfg env rc cm st)) = model_calls (events st)"
  "tick (after_script_run cfg env rc cm st) = Suc (tick st)"
  by (simp_all add: before_retry_def after_script_error_def after_script_run_def Let_def)

lemma tokens_drawn:
  shows tokens_drawn_run:
    "tick st + 4 \<le> tick (snd (agent_run cfg env cm apm d st)) \<and>
     (\<exists>k nested.
        model_calls (events (snd (agent_run cfg env cm apm d st))) =
          model_calls (events st) @ replicate k (fst (fst (agent_run_setup cfg env cm apm st)))
            @ nested \<and>
        (\<forall>sc\<in>set nested. \<exists>t. tick st + 4 \<le> t \<and> t < tick (snd (agent_run cfg env cm apm d st)) \<and>
            store_one_time_code (store sc) = one_time_code_at env t))"
  and tokens_drawn_actions:
    "tick st \<le> tick (snd (agent_run_actions cfg env rl cm a d st)) \<and>
     (\<exists>calls.
        model_calls (events (snd (agent_run_actions cfg env rl cm a d st))) =
          model_calls (events st) @ calls \<and>
        (\<forall>sc\<in>set calls. \<exists>t. tick st < t \<and> t < tick (snd (agent_run_actions cfg env rl cm a d st)) \<and>
            store_one_time_code (store sc) = one_time_code_at env t))"
  and tokens_drawn_exec:
    "tick st \<le> tick (snd (agent_exec_result cfg env rt rc cm a d st)) \<and>
     (\<exists>calls.
        model_calls (events (snd (agent_exec_result cfg env rt rc cm a d st))) =
          model_calls (events st) @ calls \<and>
        (\<forall>sc\<in>set calls. \<exists>t. tick st < t \<and> t < tick (snd (agent_exec_result cfg env rt rc cm a d st)) \<and>
            store_one_time_code (store sc) = one_time_code_at env t))"
proof -
  let ?T = "\<lambda>env lo hi calls. \<forall>sc\<in>set calls. \<exists>t. lo \<le> t \<and> t < hi \<and>
      store_one_time_code (store sc) = one_time_code_at env t"
  let ?C = "\<lambda>env st st'. tick st \<le> tick st' \<and>
     (\<exists>calls. model_calls (events st') = model_calls (events st) @ calls \<and>
        ?T env (Suc (tick st)) (tick st') calls)"
  let ?P = "\<lambda>cfg env cm apm d st.
     tick st + 4 \<le> tick (snd (agent_run cfg env cm apm d st)) \<and>
     (\<exists>k nested.
        model_calls (events (snd (agent_run cfg env cm apm d st))) =
          model_calls (events st) @ replicate k (fst (fst (agent_run_setup cfg env cm apm st)))
            @ nested \<and>
        ?T env (tick st + 4) (tick (snd (agent_run cfg env cm apm d st))) nested)"
  let ?Q = "\<lambda>cfg env rl cm a d st. ?C env st (snd (agent_run_actions cfg env rl cm a d st))"
  let ?R = "\<lambda>cfg env rt rc cm a d st.
     ?C env st (snd (agent_exec_result cfg env rt rc cm a d st))"
  have weaken: "?T env lo' hi' calls" if "?T env lo hi calls" "lo' \<le> lo" "hi \<le> hi'"
    for env lo hi lo' hi' calls
    using that by (meson le_trans less_le_trans)
  have trans: "?C env st0 st2" if "?C env st0 st1" "?C env st1 st2" for env st0 st1 st2
  proof -
    from that obtain c1 c2 where c:
      "tick st0 \<le> tick st1" "tick st1 \<le> tick st2"
      "model_calls (events st1) = model_calls (events st0) @ c1"
      "model_calls (events st2) = model_calls (events st1) @ c2"
      "?T env (Suc (tick st0)) (tick st1) c1" "?T env (Suc (tick st1)) (tick st2) c2"
      by blast
    have "?T env (Suc (tick st0)) (tick st2) c1"
      by (rule weaken [OF c(5)]) (use c(2) in simp_all)
    moreover have "?T env (Suc (tick st0)) (tick st2) c2"
      by (rule weaken [OF c(6)]) (use c(1) in simp_all)
    ultimately have "?T env (Suc (tick st0)) (tick st2) (c1 @ c2)" by auto
    moreover have "model_calls (events st2) = model_calls (events st0) @ (c1 @ c2)"
      using c(3,4) by simp
    ultimately show ?thesis using c(1,2) by (metis (no_types, lifting) le_trans)
  qed
  have run: "?P cfg env cm apm d st"
    if IH: "\<And>ret_list a st1. agent_run_prepare cfg env cm apm st = (Inr (ret_list, a), st1)
          \<Longrightarrow> ?Q cfg env ret_list cm a d st1"
    for cfg env cm apm d st
  proof -
    obtain scene a st0 where su: "agent_run_setup cfg env cm apm st = ((scene, a), st0)"
      by (rule setup_split)
    obtain r st1 where pr: "agent_run_prepare cfg env cm apm st = (r, st1)"
      by (cases "agent_run_prepare cfg env cm apm st")
    note fr = agent_run_prepare_frame [OF su pr]
    from agent_run_setup_heap(4) [OF su] fr(3) have t1: "tick st + 4 \<le> tick st1" by simp
    from agent_run_prepare_calls [OF su pr] obtain k where
      k: "model_calls (events st1) = model_calls (events st) @ replicate k scene" by blast
    have sc: "fst (fst (agent_run_setup cfg env cm apm st)) = scene" by (simp add: su)
    show ?thesis
    proof (cases r)
      case (Inl e)
      with pr have "agent_run cfg env cm apm d st = (Inl e, st1)"
        by (simp add: agent_run_stopped)
      with t1 k show ?thesis unfolding sc
        by (intro conjI exI [of _ k] exI [of _ "[]"]) simp_all
    next
      case (Inr p)
      obtain ret_list a' where p: "p = (ret_list, a')" by (cases p)
      with fr(5) Inr have a': "a' = a" by simp
      from pr Inr p a' have pr': "agent_run_prepare cfg env cm apm st = (Inr (ret_list, a), st1)"
        by simp
      obtain r2 st2 where ac: "agent_run_actions cfg env ret_list cm a d st1 = (r2, st2)"
        by (cases "agent_run_actions cfg env ret_list cm a d st1")
      note rn = agent_run_ran [OF pr' ac]
      from IH [OF pr'] ac obtain calls where c: "tick st1 \<le> tick st2"
        "model_calls (events st2) = model_calls (events st1) @ calls"
        "?T env (Suc (tick st1)) (tick st2) calls"
        by auto
      have "?T env (tick st + 4) (tick (snd (agent_run cfg env cm apm d st))) calls"
        by (rule weaken [OF c(3)]) (use t1 rn(5) in simp_all)
      moreover have "model_calls (events (snd (agent_run cfg env cm apm d st))) =
          model_calls (events st) @ replicate k scene @ calls"
        unfolding rn(4) c(2) k by simp
      moreover have "tick st + 4 \<le> tick (snd (agent_run cfg env cm apm d st))"
        using t1 c(1) rn(5) by simp
      ultimately show ?thesis unfolding sc by blast
    qed
  qed
  have nil: "?Q cfg env [] cm a d st" for cfg env cm a d st
    by simp
  have cons: "?Q cfg env (ret_data # rest) cm a d st"
    if IH1: "?R cfg env (fst ret_data) (snd ret_data) cm a d st"
      and IH2: "\<And>st1. agent_exec_result cfg env (fst ret_data) (snd ret_data) cm a d st
           = (Inr (), st1) \<Longrightarrow> ?Q cfg env rest cm a d st1"
    for cfg env ret_data rest cm a d st
  proof -
    obtain r1 st1 where ex:
      "agent_exec_result cfg env (fst ret_data) (snd ret_data) cm a d st = (r1, st1)"
      by (cases "agent_exec_result cfg env (fst ret_data) (snd ret_data) cm a d st")
    from IH1 ex have h1: "?C env st st1" by simp
    show ?thesis
    proof (cases r1)
      case (Inl e)
      with ex h1 show ?thesis by simp
    next
      case (Inr u)
      with ex have ex': "agent_exec_result cfg env (fst ret_data) (snd ret_data) cm a d st
           = (Inr (), st1)" by simp
      have eq: "agent_run_actions cfg env (ret_data # rest) cm a d st =
          agent_run_actions cfg env rest cm a d st1"
        using ex' by simp
      from trans [OF h1 IH2 [OF ex']] show ?thesis unfolding eq .
    qed
  qed
  have exec: "?R cfg env rt rc cm a d st"
    if IH: "rt = SCRIPT \<Longrightarrow> script_failed env rc cm st \<Longrightarrow> d < AI_SCRIPT_MAX_RETRY_TIMES cfg
          \<Longrightarrow> ?P cfg env cm (Some a) (d + 1) (before_retry cfg env rc cm a d st)"
    for cfg env rt rc cm a d st
  proof (cases rt)
    case TEXT
    then show ?thesis by (simp add: agent_exec_result_TEXT)
  next
    case SCRIPT
    show ?thesis
    proof (cases "script_failed env rc cm st \<and> d < AI_SCRIPT_MAX_RETRY_TIMES cfg")
      case False
      with SCRIPT show ?thesis
        by (auto simp: agent_exec_result_SCRIPT before_retry_calls prim_defs)
    next
      case True
      let ?st4 = "before_retry cfg env rc cm a d st"
      let ?st' = "snd (agent_run cfg env cm (Some a) (d + 1) ?st4)"
      let ?scene = "fst (fst (agent_run_setup cfg env cm (Some a) ?st4))"
      have eq: "agent_exec_result cfg env rt rc cm a d st =
          agent_run cfg env cm (Some a) (d + 1) ?st4"
        using True SCRIPT by (simp add: agent_exec_result_SCRIPT)
      from IH [OF SCRIPT] True obtain k nested where n:
        "tick ?st4 + 4 \<le> tick ?st'"
        "model_calls (events ?st') = model_calls (events ?st4) @ replicate k ?scene @ nested"
        "?T env (tick ?st4 + 4) (tick ?st') nested"
        by blast
      have own: "?T env (Suc (tick st)) (tick ?st') (replicate k ?scene)"
      proof
        fix sc assume "sc \<in> set (replicate k ?scene)"
        then have "sc = ?scene" by simp
        then have "store_one_time_code (store sc) = one_time_code_at env (Suc (tick ?st4))"
          by (simp add: agent_run_setup_token)
        moreover have "Suc (tick st) \<le> Suc (tick ?st4)" "Suc (tick ?st4) < tick ?st'"
          using n(1) by (simp_all add: before_retry_calls)
        ultimately show "\<exists>t. Suc (tick st) \<le> t \<and> t < tick ?st' \<and>
            store_one_time_code (store sc) = one_time_code_at env t"
          by blast
      qed
      have "?T env (Suc (tick st)) (tick ?st') nested"
        by (rule weaken [OF n(3)]) (simp_all add: before_retry_calls)
      with own have "?T env (Suc (tick st)) (tick ?st') (replicate k ?scene @ nested)"
        by auto
      moreover have "model_calls (events ?st') = model_calls (events st) @ (replicate k ?scene @ nested)"
        using n(2) by (simp add: before_retry_calls)
      moreover have "tick st \<le> tick ?st'"
        using n(1) by (simp add: before_retry_calls)
      ultimately show ?thesis unfolding eq by blast
    qed
  qed
  note ind = agent_induct [of ?Q ?P ?R, OF run nil cons exec]
  show "?P cfg env cm apm d st" by (rule ind(1))
  from ind(2) show "tick st \<le> tick (snd (agent_run_actions cfg env rl cm a d st)) \<and>
     (\<exists>calls.
        model_calls (events (snd (agent_run_actions cfg env rl cm a d st))) =
          model_calls (events st) @ calls \<and>
        (\<forall>sc\<in>set calls. \<exists>t. tick st < t \<and> t < tick (snd (agent_run_actions cfg env rl cm a d st)) \<and>
            store_one_time_code (store sc) = one_time_code_at env t))"
    by (simp add: Suc_le_eq)
  from ind(3) show "tick st \<le> tick (snd (agent_exec_result cfg env rt rc cm a d st)) \<and>
     (\<exists>calls.
        model_calls (events (snd (agent_exec_result cfg env rt rc cm a d st))) =
          model_calls (events st) @ calls \<and>
        (\<forall>sc\<in>set calls. \<exists>t. tick st < t \<and> t < tick (snd (agent_exec_result cfg env rt rc cm a d st)) \<and>
            store_one_time_code (store sc) = one_time_code_at env t))"
    by (simp add: Suc_le_eq)
qed

section \<open>The claims\<close>

subsection \<open>The format of the one-time code\<close>

lemma hex_char_mem: "hex_char n \<in> set ''0123456789abcdef''"
  unfolding hex_char_def by (rule nth_mem) simp

lemma set_bytes_hex: "set (bytes_hex bs) \<subseteq> set ''0123456789abcdef''"
  unfolding bytes_hex_def byte_hex_def using hex_char_mem by auto

lemma length_bytes_hex: "length (bytes_hex bs) = 2 * length bs"
  unfolding bytes_hex_def by (induction bs) (simp_all add: byte_hex_def)

lemma one_time_code_at_format:
  "length (one_time_code_at env t) = 8"
  "set (one_time_code_at env t) \<subseteq> set ''0123456789abcdef''"
  unfolding one_time_code_at_def by (simp add: length_bytes_hex) (rule set_bytes_hex)

subsection \<open>The context window\<close>







lemma cutoff0: "py_int (2001 / 2 - of_int 100) = 900"
  by (simp add: py_int_def floor_eq_iff)

lemma kept0:
  "filter (\<lambda>m. db_chat_key m = ''group_1'' \<and> 900 \<le> send_timestamp m) rows0 =
     [turn ''group_1'' 900 ''at the cut-off'', turn ''group_1'' 960 ''hello'',
      turn ''group_1'' 990 ''run it'']"
  by (simp add: rows0_def turn_def)

lemma desc0:
  "sort_key (\<lambda>m. - send_timestamp m)
     [turn ''group_1'' 900 ''at the cut-off'', turn ''group_1'' 960 ''hello'',
      turn ''group_1'' 990 ''run it''] =
     [turn ''group_1'' 990 ''run it'', turn ''group_1'' 960 ''hello'',
      turn ''group_1'' 900 ''at the cut-off'']"
  by (simp add: turn_def)

lemma rows0_window:
  assumes "AI_CHAT_CONTEXT_EXPIRE_SECONDS cfg = 100"
  shows "recent_chat_messages cfg rows0 ''group_1'' (2001 / 2) =
     py_slice_from
       (rev (sql_limit (AI_CHAT_CONTEXT_MAX_LENGTH cfg)
          [turn ''group_1'' 990 ''run it'', turn ''group_1'' 960 ''hello'',
           turn ''group_1'' 900 ''at the cut-off'']))
       (- AI_CHAT_CONTEXT_MAX_LENGTH cfg)"
  unfolding recent_chat_messages_def sqa_query_def Let_def assms cutoff0 kept0 desc0 ..

lemma cfg0_simps:
  "DEBUG_IN_CHAT cfg0 = False"
  "AI_CHAT_PRESET_SETTING cfg0 = ''You are a helpful bot''"
  "AI_CHAT_CONTEXT_EXPIRE_SECONDS cfg0 = 100"
  "AI_CHAT_CONTEXT_MAX_LENGTH cfg0 = 2"
  "AI_CHAT_LLM_API_MAX_RETRIES cfg0 = 3"
  "AI_SCRIPT_MAX_RETRY_TIMES cfg0 = 2"
  by (simp_all add: cfg0_def)

lemma window0:
  "recent_chat_messages cfg0 rows0 ''group_1'' (2001 / 2) =
     [turn ''group_1'' 960 ''hello'', turn ''group_1'' 990 ''run it'']"
  by (simp add: rows0_window [OF cfg0_simps(3)] cfg0_simps(4) sql_limit_def py_slice_from_def)



subsection \<open>Evaluating the small installation\<close>

lemma msg0_simps: "chat_key msg0 = ''group_1''" "sender_nickname msg0 = ''alice''"
  by (simp_all add: msg0_def)

lemma env0_simps:
  "CODE_RUN_ERROR_FLAG env0 = ''[CODE_RUN_ERROR]''"
  "clock env0 t = 2001 / 2"
  "clock_strftime env0 t = ''20240101120000''"
  "urandom_byte env0 t k = of_nat (16 * t + k)"
  "db_rows env0 t = rows0"
  "backend env0 t scene = Inr ''reply''"
  "resolver env0 mr = Inr [(TEXT, ''Hello'')]"
  "sandbox env0 t code key = ''done''"
  "save_raises env0 t mr prompt_file response_file = None"
  by (simp_all add: env0_def)

lemma env_script_simps:
  "CODE_RUN_ERROR_FLAG env_script = ''[CODE_RUN_ERROR]''"
  "clock env_script t = 2001 / 2"
  "clock_strftime env_script t = ''20240101120000''"
  "urandom_byte env_script t k = of_nat (16 * t + k)"
  "db_rows env_script t = rows0"
  "backend env_script t scene = Inr ''reply''"
  "resolver env_script mr =
     (if length (messages (prompt_creator (mr_scene mr))) = 2
      then Inr [(SCRIPT, ''run()'')] else Inr [(TEXT, ''sorry'')])"
  "sandbox env_script t code key = ''boom[CODE_RUN_ERROR]''"
  "save_raises env_script t mr prompt_file response_file = None"
  by (simp_all add: env_script_def env0_def)

lemma env_down_simps:
  "backend env_down t scene = Inl ''timeout''"
  by (simp_all add: env_down_def env0_def)

lemma env_unresolved_simps:
  "backend env_unresolved t scene = Inr ''reply''"
  "resolver env_unresolved mr = Inl ''one-time code mismatch''"
  by (simp_all add: env_unresolved_def env0_def)

lemma env_unsaved_simps:
  "backend env_unsaved t scene = Inr ''reply''"
  "resolver env_unsaved mr = Inr [(TEXT, ''Hello'')]"
  "save_raises env_unsaved t mr prompt_file response_file = Some ''disk full''"
  by (simp_all add: env_unsaved_def env0_def)

lemma st_start_simps:
  "tick st_start = 0" "heap st_start a = []" "heap_next st_start = 0" "events st_start = []"
  by (simp_all add: st_start_def)

lemma st_caller_simps:
  "tick st_caller = 0" "heap st_caller a = []" "heap_next st_caller = 1" "events st_caller = []"
  by (simp_all add: st_caller_def)

lemma scene_run_attempts_numeral:
  "scene_run_attempts env scene (numeral k) st =
     (let r = backend env (tick st) scene;
          st1 = emit (Scene_run scene r) (next_tick st)
      in case r of
           Inr raw \<Rightarrow> (Some \<lparr>mr_scene = scene, response_text = raw\<rparr>, st1)
         | Inl e \<Rightarrow>
             scene_run_attempts env scene (pred_numeral k) (logger_error (llm_api_error e) st1))"
  by (simp only: numeral_eq_Suc scene_run_attempts.simps)

lemmas run_defs = agent_run.simps agent_run_prepare_def agent_run_setup_def agent_run_save_def
  prim_defs Let_def scene_run_attempts_numeral

lemma script_fails_in_env_script: "script_failed env_script ''run()'' msg0 st"
  by (simp add: script_failed_def script_result_def endswith_def env_script_simps)


subsection \<open>Text actions\<close>

text \<open>
  Claim C8. Executing a text action makes exactly one call, \<^verbatim>\<open>send_agent_message\<close> to the
  channel with the text of the action and \<^verbatim>\<open>record=True\<close>: the trace grows by that one
  event, so the sandbox is not called, and nothing else of the state changes.
\<close>

theorem text_action_sends_once:
  "agent_exec_result cfg env TEXT ret_content chat_message addition retry_depth st =
     (Inr (), st\<lparr>events := events st
        @ [Send_agent_message (chat_key chat_message) ret_content (Some True)]\<rparr>)"
  by (simp add: agent_exec_result.simps prim_defs)

text \<open>
  The first end-to-end scenario of the specification: the window holds two turns, the model
  answers with the text action \<^verbatim>\<open>Hello\<close>; the invocation sends it once and calls no sandbox.
\<close>

theorem text_action_sends_once_witness:
  "length (recent_chat_messages cfg0 rows0 ''group_1'' (2001 / 2)) = 2 \<and>
   fst (agent_run cfg0 env0 msg0 None 0 st_start) = Inr () \<and>
   sent (events (snd (agent_run cfg0 env0 msg0 None 0 st_start))) =
     [Send_agent_message ''group_1'' ''Hello'' (Some True)] \<and>
   sandbox_runs (events (snd (agent_run cfg0 env0 msg0 None 0 st_start))) = []"
  by (simp add: window0 run_defs text_action_sends_once cfg0_simps env0_simps msg0_simps
      st_start_simps)

subsection \<open>Script actions\<close>

text \<open>
  Claim C9. When the text returned by the sandbox does not end with the error marker, the
  executor is done after the sandbox call: the lists of addition messages are untouched,
  the loop is not entered again, and the only message to the channel is the debug notice
  sent before the call when debugging in chat is on.
\<close>

theorem script_success_no_further_action:
  assumes "\<not> script_failed env ret_content chat_message st"
  shows "agent_exec_result cfg env SCRIPT ret_content chat_message addition retry_depth st =
     (Inr (),
      st\<lparr>tick := Suc (tick st),
         events := events st
           @ (if DEBUG_IN_CHAT cfg then [Send_message (chat_key chat_message) DEBUG_RUNNING]
              else [])
           @ [Limited_run_code ret_content (chat_key chat_message)
                (script_result env ret_content chat_message st)]\<rparr>)"
  using assms by (simp add: agent_exec_result_SCRIPT after_script_run_def)

theorem script_success_no_further_action_witness:
  "\<not> script_failed env0 ''run()'' msg0 st_caller \<and>
   fst (agent_exec_result cfg0 env0 SCRIPT ''run()'' msg0 0 0 st_caller) = Inr () \<and>
   heap (snd (agent_exec_result cfg0 env0 SCRIPT ''run()'' msg0 0 0 st_caller)) 0 = [] \<and>
   events (snd (agent_exec_result cfg0 env0 SCRIPT ''run()'' msg0 0 0 st_caller)) =
     [Limited_run_code ''run()'' ''group_1'' ''done'']"
proof -
  have ok: "\<not> script_failed env0 ''run()'' msg0 st_caller"
    by (simp add: script_failed_def script_result_def endswith_def env0_simps)
  from script_success_no_further_action [OF ok, of cfg0 0 0] ok show ?thesis
    by (simp add: cfg0_simps msg0_simps st_caller_simps script_result_def env0_simps)
qed



lemma agent_run_scene_messages:
  "length (messages (prompt_creator (agent_run_scene cfg cm code recent addition))) =
     2 + length addition"
  by (simp add: agent_run_scene_def Let_def)

lemmas script_state_defs = before_retry_def after_script_error_def after_script_run_def
  script_feedback_def

lemmas exec_defs = agent_exec_result_TEXT agent_exec_result_SCRIPT script_state_defs
  agent_run_scene_messages

subsection \<open>When the loop is entered again\<close>




subsection \<open>The model call and the resolution\<close>

lemma agent_run_setup_trace:
  assumes "agent_run_setup cfg env cm apm st = ((scene, a), st1)"
  shows "events st1 = events st
      @ (if DEBUG_IN_CHAT cfg then [Send_message (chat_key cm) DEBUG_THINKING] else [])"
    "tick st1 = tick st + 4"
proof -
  have st1: "st1 = snd (agent_run_setup cfg env cm apm st)" by (simp add: assms)
  show "events st1 = events st
      @ (if DEBUG_IN_CHAT cfg then [Send_message (chat_key cm) DEBUG_THINKING] else [])"
    "tick st1 = tick st + 4"
    unfolding st1 agent_run_setup_state by (simp_all add: Let_def)
qed

lemma agent_run_save_result:
  "fst (agent_run_save env mr st) =
     (case save_raises env (tick st) mr LATEST_PROMPT_FILE LATEST_RESPONSE_FILE of
        Some e \<Rightarrow> Inl (Exception e)
      | None \<Rightarrow>
         (case save_raises env (tick st + 3) mr
                 (archive_prompt_file (clock_strftime env (tick st + 1)))
                 (archive_response_file (clock_strftime env (tick st + 2))) of
            Some e \<Rightarrow> Inl (Exception e)
          | None \<Rightarrow> Inr ()))"
  "saved (events (snd (agent_run_save env mr st))) =
     saved (events st)
     @ (mr, LATEST_PROMPT_FILE, LATEST_RESPONSE_FILE)
     # (if save_raises env (tick st) mr LATEST_PROMPT_FILE LATEST_RESPONSE_FILE = None
        then [(mr, archive_prompt_file (clock_strftime env (tick st + 1)),
               archive_response_file (clock_strftime env (tick st + 2)))]
        else [])"
  by (simp_all add: agent_run_save_def prim_defs Let_def numeral_3_eq_3 numeral_2_eq_2
      split: option.splits)

text \<open>
  Claim C4. When every call of the model backend fails, the invocation calls it exactly the
  configured maximum number of times (\<open>nat\<close> of the setting, which is the setting when it
  is not negative), logs each failure with its text and goes on, then sends the apology to
  the channel once and raises \<^verbatim>\<open>SceneRuntimeError\<close>. Besides the apology only the debug
  notice of line 69 is sent; no sandbox is called and nothing is saved, so no resolved action
  is executed.
\<close>

theorem model_backend_down:
  assumes "\<forall>t. isl (backend env t (fst (fst (agent_run_setup cfg env chat_message apm st))))"
  shows "fst (agent_run cfg env chat_message apm retry_depth st)
       = Inl (SceneRuntimeError LLM_API_FATAL) \<and>
     model_calls (events (snd (agent_run cfg env chat_message apm retry_depth st))) =
       model_calls (events st)
       @ replicate (nat (AI_CHAT_LLM_API_MAX_RETRIES cfg))
           (fst (fst (agent_run_setup cfg env chat_message apm st))) \<and>
     error_logs (events (snd (agent_run cfg env chat_message apm retry_depth st))) =
       error_logs (events st)
       @ map (\<lambda>i. llm_api_error (projl (backend env (tick st + 4 + i)
                 (fst (fst (agent_run_setup cfg env chat_message apm st))))))
           [0..<nat (AI_CHAT_LLM_API_MAX_RETRIES cfg)] \<and>
     sent (events (snd (agent_run cfg env chat_message apm retry_depth st))) =
       sent (events st)
       @ (if DEBUG_IN_CHAT cfg then [Send_message (chat_key chat_message) DEBUG_THINKING]
          else [])
       @ [Send_agent_message (chat_key chat_message) LLM_API_APOLOGY None] \<and>
     sandbox_runs (events (snd (agent_run cfg env chat_message apm retry_depth st))) =
       sandbox_runs (events st) \<and>
     saved (events (snd (agent_run cfg env chat_message apm retry_depth st))) =
       saved (events st)"
proof -
  let ?n = "nat (AI_CHAT_LLM_API_MAX_RETRIES cfg)"
  obtain scene a st1 where su: "agent_run_setup cfg env chat_message apm st = ((scene, a), st1)"
    by (rule setup_split)
  have sc: "fst (fst (agent_run_setup cfg env chat_message apm st)) = scene"
    by (simp add: su)
  from assms have down: "\<forall>t. isl (backend env t scene)" unfolding sc .
  obtain r2 st2 where att: "scene_run_attempts env scene ?n st1 = (r2, st2)"
    by (cases "scene_run_attempts env scene ?n st1")
  from scene_run_attempts_down [OF down, of ?n st1] att
  have none: "r2 = None"
    and logs: "error_logs (events st2) = error_logs (events st1)
        @ map (\<lambda>i. llm_api_error (projl (backend env (tick st1 + i) scene))) [0..<?n]"
    by simp_all
  from scene_run_attempts_calls [OF att] none
  have calls: "model_calls (events st2) = model_calls (events st1) @ replicate ?n scene"
    by auto
  note fr = scene_run_attempts_frame [OF att]
  note tr = agent_run_setup_trace [OF su]
  have "agent_run_prepare cfg env chat_message apm st =
      (Inl (SceneRuntimeError LLM_API_FATAL),
       send_agent_message (chat_key chat_message) LLM_API_APOLOGY None st2)"
    using su att none by (simp add: agent_run_prepare_def)
  then have run: "agent_run cfg env chat_message apm retry_depth st =
      (Inl (SceneRuntimeError LLM_API_FATAL),
       send_agent_message (chat_key chat_message) LLM_API_APOLOGY None st2)"
    by (rule agent_run_stopped)
  have ev: "events (send_agent_message (chat_key chat_message) LLM_API_APOLOGY None st2) =
      events st2 @ [Send_agent_message (chat_key chat_message) LLM_API_APOLOGY None]"
    by (simp add: prim_defs)
  have t: "(\<lambda>i. llm_api_error (projl (backend env (tick st1 + i) scene))) =
      (\<lambda>i. llm_api_error (projl (backend env (tick st + 4 + i) scene)))"
    by (simp add: tr(2))
  show ?thesis
    unfolding run sc snd_conv fst_conv ev
    using calls logs fr tr(1) unfolding t by simp
qed

theorem model_backend_down_witness:
  "fst (agent_run cfg0 env_down msg0 None 0 st_start) = Inl (SceneRuntimeError LLM_API_FATAL) \<and>
   length (model_calls (events (snd (agent_run cfg0 env_down msg0 None 0 st_start)))) = 3 \<and>
   error_logs (events (snd (agent_run cfg0 env_down msg0 None 0 st_start))) =
     [llm_api_error ''timeout'', llm_api_error ''timeout'', llm_api_error ''timeout''] \<and>
   sent (events (snd (agent_run cfg0 env_down msg0 None 0 st_start))) =
     [Send_agent_message ''group_1'' LLM_API_APOLOGY None] \<and>
   sandbox_runs (events (snd (agent_run cfg0 env_down msg0 None 0 st_start))) = []"
proof -
  have down: "\<forall>t. isl (backend env_down t
      (fst (fst (agent_run_setup cfg0 env_down msg0 None st_start))))"
    by (simp add: env_down_simps)
  have three: "[0..<3] = [0, 1, 2]" by (simp add: upt_rec)
  from model_backend_down [OF down, of 0] show ?thesis
    by (simp add: cfg0_simps msg0_simps st_start_simps env_down_simps three)
qed

text \<open>
  Claim C5. When the resolver raises on the model's response, the invocation logs the
  error and raises \<^verbatim>\<open>ResolveError\<close> to its caller: the state it leaves is the state after
  the model call with the log entry added. So the model is not called again, no action is
  executed, no sandbox is called, nothing is saved, and nothing is sent to the channel
  after the debug notice of line 69.
\<close>

theorem resolver_failure_is_fatal:
  assumes "agent_run_setup cfg env chat_message apm st = ((scene, addition), st1)"
    and "scene_run_attempts env scene (nat (AI_CHAT_LLM_API_MAX_RETRIES cfg)) st1 = (Some mr, st2)"
    and "resolver env mr = Inl e"
  shows "agent_run cfg env chat_message apm retry_depth st =
       (Inl (ResolveError (resolve_error e)), logger_error (resolve_error e) st2) \<and>
     model_calls (events (snd (agent_run cfg env chat_message apm retry_depth st))) =
       model_calls (events st2) \<and>
     sent (events (snd (agent_run cfg env chat_message apm retry_depth st))) =
       sent (events st)
       @ (if DEBUG_IN_CHAT cfg then [Send_message (chat_key chat_message) DEBUG_THINKING]
          else []) \<and>
     sandbox_runs (events (snd (agent_run cfg env chat_message apm retry_depth st))) =
       sandbox_runs (events st) \<and>
     saved (events (snd (agent_run cfg env chat_message apm retry_depth st))) =
       saved (events st)"
proof -
  have "agent_run_prepare cfg env chat_message apm st =
      (Inl (ResolveError (resolve_error e)), logger_error (resolve_error e) st2)"
    using assms by (simp add: agent_run_prepare_def)
  then have run: "agent_run cfg env chat_message apm retry_depth st =
      (Inl (ResolveError (resolve_error e)), logger_error (resolve_error e) st2)"
    by (rule agent_run_stopped)
  note fr = scene_run_attempts_frame [OF assms(2)]
  note tr = agent_run_setup_trace [OF assms(1)]
  show ?thesis unfolding run using fr tr(1) by (simp add: prim_defs)
qed

lemma first_reply:
  assumes "backend env (tick st) scene = Inr raw" and "0 < n"
  shows "scene_run_attempts env scene n st =
     (Some \<lparr>mr_scene = scene, response_text = raw\<rparr>, emit (Scene_run scene (Inr raw)) (next_tick st))"
proof -
  from assms(2) obtain m where "n = Suc m" by (cases n) simp_all
  with assms(1) show ?thesis by (simp add: Let_def)
qed

lemma setup_collapse:
  "agent_run_setup cfg env cm apm st =
     ((fst (fst (agent_run_setup cfg env cm apm st)),
       snd (fst (agent_run_setup cfg env cm apm st))),
      snd (agent_run_setup cfg env cm apm st))"
  by simp

theorem resolver_failure_is_fatal_witness:
  "fst (agent_run cfg0 env_unresolved msg0 None 0 st_start) =
     Inl (ResolveError (resolve_error ''one-time code mismatch'')) \<and>
   length (model_calls (events (snd (agent_run cfg0 env_unresolved msg0 None 0 st_start)))) = 1 \<and>
   sent (events (snd (agent_run cfg0 env_unresolved msg0 None 0 st_start))) = [] \<and>
   sandbox_runs (events (snd (agent_run cfg0 env_unresolved msg0 None 0 st_start))) = []"
proof -
  let ?su = "agent_run_setup cfg0 env_unresolved msg0 None st_start"
  let ?mr = "\<lparr>mr_scene = fst (fst ?su), response_text = ''reply''\<rparr>"
  let ?st2 = "emit (Scene_run (fst (fst ?su)) (Inr ''reply'')) (next_tick (snd ?su))"
  have att: "scene_run_attempts env_unresolved (fst (fst ?su))
      (nat (AI_CHAT_LLM_API_MAX_RETRIES cfg0)) (snd ?su) = (Some ?mr, ?st2)"
    by (rule first_reply) (simp_all add: env_unresolved_simps cfg0_simps)
  have res: "resolver env_unresolved ?mr = Inl ''one-time code mismatch''"
    by (simp add: env_unresolved_simps)
  have calls: "model_calls (events ?st2) = [fst (fst ?su)]"
    by (simp add: agent_run_setup_state prim_defs Let_def st_start_simps)
  note r = resolver_failure_is_fatal [OF setup_collapse att res, of 0]
  from r [THEN conjunct1]
  have "fst (agent_run cfg0 env_unresolved msg0 None 0 st_start) =
     Inl (ResolveError (resolve_error ''one-time code mismatch''))"
    by simp
  moreover from r [THEN conjunct2, THEN conjunct1] calls
  have "length (model_calls (events (snd (agent_run cfg0 env_unresolved msg0 None 0 st_start))))
      = 1"
    by simp
  moreover from r [THEN conjunct2, THEN conjunct2, THEN conjunct1]
  have "sent (events (snd (agent_run cfg0 env_unresolved msg0 None 0 st_start))) = []"
    by (simp add: cfg0_simps st_start_simps)
  moreover from r [THEN conjunct2, THEN conjunct2, THEN conjunct2, THEN conjunct1]
  have "sandbox_runs (events (snd (agent_run cfg0 env_unresolved msg0 None 0 st_start))) = []"
    by (simp add: st_start_simps)
  ultimately show ?thesis by (intro conjI)
qed

subsection \<open>The saved files\<close>

text \<open>
  Claim C6, as amended. The prompt and response of a model call are saved only after the
  call has succeeded and its response has been resolved: the attempts themselves save
  nothing, and nothing is saved for a response that does not resolve. For a resolved
  response the invocation saves first to the fixed pair of files, then to the pair named
  with the formatted time. The saving is not guarded: when the first call of
  \<^verbatim>\<open>mr.save\<close> raises, the second is not made, and when either raises, the invocation ends
  with that exception before any resolved action is executed (nothing is sent, no sandbox
  is called). Only when both succeed does the invocation go on to its actions.
\<close>

theorem model_response_saved_after_resolution:
  assumes "agent_run_setup cfg env chat_message apm st = ((scene, addition), st1)"
    and "scene_run_attempts env scene (nat (AI_CHAT_LLM_API_MAX_RETRIES cfg)) st1 = (Some mr, st2)"
  shows "saved (events st2) = saved (events st) \<and>
     (\<forall>e. resolver env mr = Inl e \<longrightarrow>
        saved (events (snd (agent_run cfg env chat_message apm retry_depth st)))
          = saved (events st)) \<and>
     (\<forall>ret_list. resolver env mr = Inr ret_list \<longrightarrow>
        saved (events (snd (agent_run_prepare cfg env chat_message apm st))) =
          saved (events st)
          @ (mr, LATEST_PROMPT_FILE, LATEST_RESPONSE_FILE)
          # (if save_raises env (tick st2) mr LATEST_PROMPT_FILE LATEST_RESPONSE_FILE = None
             then [(mr, archive_prompt_file (clock_strftime env (tick st2 + 1)),
                    archive_response_file (clock_strftime env (tick st2 + 2)))]
             else []) \<and>
        (\<forall>e. save_raises env (tick st2) mr LATEST_PROMPT_FILE LATEST_RESPONSE_FILE = Some e \<or>
              save_raises env (tick st2) mr LATEST_PROMPT_FILE LATEST_RESPONSE_FILE = None \<and>
              save_raises env (tick st2 + 3) mr
                (archive_prompt_file (clock_strftime env (tick st2 + 1)))
                (archive_response_file (clock_strftime env (tick st2 + 2))) = Some e \<longrightarrow>
           fst (agent_run cfg env chat_message apm retry_depth st) = Inl (Exception e) \<and>
           sent (events (snd (agent_run cfg env chat_message apm retry_depth st))) =
             sent (events st)
             @ (if DEBUG_IN_CHAT cfg
                then [Send_message (chat_key chat_message) DEBUG_THINKING] else []) \<and>
           sandbox_runs (events (snd (agent_run cfg env chat_message apm retry_depth st))) =
             sandbox_runs (events st)) \<and>
        (save_raises env (tick st2) mr LATEST_PROMPT_FILE LATEST_RESPONSE_FILE = None \<and>
         save_raises env (tick st2 + 3) mr
           (archive_prompt_file (clock_strftime env (tick st2 + 1)))
           (archive_response_file (clock_strftime env (tick st2 + 2))) = None \<longrightarrow>
           fst (agent_run_prepare cfg env chat_message apm st) = Inr (ret_list, addition)))"
proof (intro conjI allI impI)
  note fr = scene_run_attempts_frame [OF assms(2)]
  note tr = agent_run_setup_trace [OF assms(1)]
  have s1: "saved (events st1) = saved (events st)" unfolding tr(1) by simp
  show s2: "saved (events st2) = saved (events st)" using fr s1 by simp
  {
    fix e assume res: "resolver env mr = Inl e"
    have "agent_run_prepare cfg env chat_message apm st =
        (Inl (ResolveError (resolve_error e)), logger_error (resolve_error e) st2)"
      using assms res by (simp add: agent_run_prepare_def)
    then have "agent_run cfg env chat_message apm retry_depth st =
        (Inl (ResolveError (resolve_error e)), logger_error (resolve_error e) st2)"
      by (rule agent_run_stopped)
    then show "saved (events (snd (agent_run cfg env chat_message apm retry_depth st)))
        = saved (events st)"
      using s2 by (simp add: prim_defs)
  }
  fix ret_list assume res: "resolver env mr = Inr ret_list"
  obtain r3 st3 where sv: "agent_run_save env mr st2 = (r3, st3)"
    by (cases "agent_run_save env mr st2")
  have pr: "agent_run_prepare cfg env chat_message apm st =
      (case r3 of Inl e \<Rightarrow> (Inl e, st3) | Inr u \<Rightarrow> (Inr (ret_list, addition), st3))"
    using assms res sv by (simp add: agent_run_prepare_def)
  then have st3: "snd (agent_run_prepare cfg env chat_message apm st) = st3"
    by (cases r3) simp_all
  note sr = agent_run_save_result [of env mr st2, unfolded sv fst_conv snd_conv]
  note sf = agent_run_save_frame [OF sv]
  show "saved (events (snd (agent_run_prepare cfg env chat_message apm st))) =
      saved (events st)
      @ (mr, LATEST_PROMPT_FILE, LATEST_RESPONSE_FILE)
      # (if save_raises env (tick st2) mr LATEST_PROMPT_FILE LATEST_RESPONSE_FILE = None
         then [(mr, archive_prompt_file (clock_strftime env (tick st2 + 1)),
                archive_response_file (clock_strftime env (tick st2 + 2)))]
         else [])"
    unfolding st3 sr(2) s2 ..
  {
    fix e
    assume "save_raises env (tick st2) mr LATEST_PROMPT_FILE LATEST_RESPONSE_FILE = Some e \<or>
        save_raises env (tick st2) mr LATEST_PROMPT_FILE LATEST_RESPONSE_FILE = None \<and>
        save_raises env (tick st2 + 3) mr
          (archive_prompt_file (clock_strftime env (tick st2 + 1)))
          (archive_response_file (clock_strftime env (tick st2 + 2))) = Some e"
    with sr(1) have r3: "r3 = Inl (Exception e)" by auto
    with pr have "agent_run_prepare cfg env chat_message apm st = (Inl (Exception e), st3)"
      by simp
    then have run: "agent_run cfg env chat_message apm retry_depth st = (Inl (Exception e), st3)"
      by (rule agent_run_stopped)
    show "fst (agent_run cfg env chat_message apm retry_depth st) = Inl (Exception e)"
      unfolding run by simp
    show "sent (events (snd (agent_run cfg env chat_message apm retry_depth st))) =
        sent (events st)
        @ (if DEBUG_IN_CHAT cfg
           then [Send_message (chat_key chat_message) DEBUG_THINKING] else [])"
      unfolding run using sf fr tr(1) by simp
    show "sandbox_runs (events (snd (agent_run cfg env chat_message apm retry_depth st))) =
        sandbox_runs (events st)"
      unfolding run using sf fr tr(1) by simp
  }
  assume "save_raises env (tick st2) mr LATEST_PROMPT_FILE LATEST_RESPONSE_FILE = None \<and>
      save_raises env (tick st2 + 3) mr
        (archive_prompt_file (clock_strftime env (tick st2 + 1)))
        (archive_response_file (clock_strftime env (tick st2 + 2))) = None"
  with sr(1) have "r3 = Inr ()" by simp
  with pr show "fst (agent_run_prepare cfg env chat_message apm st) = Inr (ret_list, addition)"
    by simp
qed

lemma first_reply_in_example:
  assumes "\<And>t scene. backend env t scene = Inr ''reply''"
  shows "scene_run_attempts env (fst (fst (agent_run_setup cfg0 env msg0 None st_start)))
      (nat (AI_CHAT_LLM_API_MAX_RETRIES cfg0)) (snd (agent_run_setup cfg0 env msg0 None st_start)) =
     (Some \<lparr>mr_scene = fst (fst (agent_run_setup cfg0 env msg0 None st_start)),
            response_text = ''reply''\<rparr>,
      emit (Scene_run (fst (fst (agent_run_setup cfg0 env msg0 None st_start))) (Inr ''reply''))
        (next_tick (snd (agent_run_setup cfg0 env msg0 None st_start))))"
  by (rule first_reply) (simp_all add: assms cfg0_simps)

text \<open>Two runs of the theorem: writing the files fails, and the invocation ends with the
  exception of the first save, the text action unsent; writing succeeds, and both pairs of
  files are saved, the fixed pair first.\<close>

theorem model_response_saved_after_resolution_witness:
  "fst (agent_run cfg0 env_unsaved msg0 None 0 st_start) = Inl (Exception ''disk full'') \<and>
   sent (events (snd (agent_run cfg0 env_unsaved msg0 None 0 st_start))) = [] \<and>
   map snd (saved (events (snd (agent_run_prepare cfg0 env_unsaved msg0 None st_start)))) =
     [(LATEST_PROMPT_FILE, LATEST_RESPONSE_FILE)] \<and>
   fst (agent_run_prepare cfg0 env0 msg0 None st_start) = Inr ([(TEXT, ''Hello'')], 0) \<and>
   map snd (saved (events (snd (agent_run_prepare cfg0 env0 msg0 None st_start)))) =
     [(LATEST_PROMPT_FILE, LATEST_RESPONSE_FILE),
      (archive_prompt_file ''20240101120000'', archive_response_file ''20240101120000'')]"
proof -
  note a = model_response_saved_after_resolution
    [OF setup_collapse first_reply_in_example, of env_unsaved 0, OF env_unsaved_simps(1)]
  note b = model_response_saved_after_resolution
    [OF setup_collapse first_reply_in_example, of env0 0, OF env0_simps(6)]
  note a3 = a [THEN conjunct2, THEN conjunct2, THEN spec, THEN mp, OF env_unsaved_simps(2)]
  note b3 = b [THEN conjunct2, THEN conjunct2, THEN spec, THEN mp, OF env0_simps(7)]
  have ad: "snd (fst (agent_run_setup cfg0 env0 msg0 None st_start)) = 0"
    by (simp add: agent_run_setup_addition st_start_simps)
  from a3 [THEN conjunct2, THEN conjunct1, THEN spec, of "''disk full''"]
  have "fst (agent_run cfg0 env_unsaved msg0 None 0 st_start) = Inl (Exception ''disk full'')"
    "sent (events (snd (agent_run cfg0 env_unsaved msg0 None 0 st_start))) = []"
    by (simp_all add: env_unsaved_simps cfg0_simps st_start_simps)
  moreover from a3 [THEN conjunct1]
  have "map snd (saved (events (snd (agent_run_prepare cfg0 env_unsaved msg0 None st_start)))) =
     [(LATEST_PROMPT_FILE, LATEST_RESPONSE_FILE)]"
    by (simp add: env_unsaved_simps st_start_simps)
  moreover from b3 [THEN conjunct2, THEN conjunct2] ad
  have "fst (agent_run_prepare cfg0 env0 msg0 None st_start) = Inr ([(TEXT, ''Hello'')], 0)"
    by (simp add: env0_simps)
  moreover from b3 [THEN conjunct1]
  have "map snd (saved (events (snd (agent_run_prepare cfg0 env0 msg0 None st_start)))) =
     [(LATEST_PROMPT_FILE, LATEST_RESPONSE_FILE),
      (archive_prompt_file ''20240101120000'', archive_response_file ''20240101120000'')]"
    by (simp add: env0_simps st_start_simps)
  ultimately show ?thesis by (intro conjI)
qed

text \<open>
  Claim C6 as stated fails twice. A model call whose response does not resolve is not
  persisted: the model is called once and nothing is saved. And a failing save does abort
  the invocation: the response resolves to a text action, the save raises, the invocation
  ends with that exception and the text is never sent.
\<close>

theorem model_response_saved_counterexample:
  "length (model_calls (events (snd (agent_run cfg0 env_unresolved msg0 None 0 st_start)))) = 1 \<and>
   saved (events (snd (agent_run cfg0 env_unresolved msg0 None 0 st_start))) = [] \<and>
   fst (agent_run cfg0 env_unsaved msg0 None 0 st_start) = Inl (Exception ''disk full'') \<and>
   sent (events (snd (agent_run cfg0 env_unsaved msg0 None 0 st_start))) = []"
  by (simp add: run_defs exec_defs cfg0_simps env_unresolved_simps env_unsaved_simps
      msg0_simps st_start_simps)

subsection \<open>The one-time code of an invocation\<close>

lemma one_time_codes_simps [simp]:
  "one_time_codes [] = []"
  "one_time_codes (xs @ ys) = one_time_codes xs @ one_time_codes ys"
  by (simp_all add: one_time_codes_def)

text \<open>
  Claim C7. An invocation reads four bytes from the random source at its start, before
  anything else but the clock, and its one-time code is their hexadecimal form, eight
  characters out of \<^verbatim>\<open>0123456789abcdef\<close>. \<^verbatim>\<open>agent_run\<close> has no parameter for the code:
  the codes submitted to the model during an invocation are first its own, the same for
  each attempt and read when the counter of answers was \<open>tick st + 1\<close>, and then those of
  the invocations it starts for failed scripts, each read from the random source later
  (at a counter of at least \<open>tick st + 4\<close>), so no invocation passes its code on.
\<close>

theorem one_time_code_per_invocation:
  "\<exists>k nested.
     one_time_codes (events (snd (agent_run cfg env chat_message apm retry_depth st))) =
       one_time_codes (events st)
       @ replicate k (one_time_code_at env (Suc (tick st))) @ nested \<and>
     store_one_time_code (store (fst (fst (agent_run_setup cfg env chat_message apm st)))) =
       one_time_code_at env (Suc (tick st)) \<and>
     (\<forall>code\<in>set nested. \<exists>t. tick st + 4 \<le> t \<and> code = one_time_code_at env t) \<and>
     (\<forall>t. one_time_code_at env t = bytes_hex (map (urandom_byte env t) [0..<4]) \<and>
          length (one_time_code_at env t) = 8 \<and>
          set (one_time_code_at env t) \<subseteq> set ''0123456789abcdef'')"
proof -
  let ?scene = "fst (fst (agent_run_setup cfg env chat_message apm st))"
  let ?st' = "snd (agent_run cfg env chat_message apm retry_depth st)"
  from tokens_drawn_run [of st cfg env chat_message apm retry_depth]
  obtain k nested where n:
    "model_calls (events ?st') = model_calls (events st) @ replicate k ?scene @ nested"
    "\<forall>sc\<in>set nested. \<exists>t. tick st + 4 \<le> t \<and> t < tick ?st' \<and>
        store_one_time_code (store sc) = one_time_code_at env t"
    by blast
  let ?codes = "map (\<lambda>scene. store_one_time_code (store scene)) nested"
  have own: "store_one_time_code (store ?scene) = one_time_code_at env (Suc (tick st))"
    by (rule agent_run_setup_token)
  have "one_time_codes (events ?st') =
      one_time_codes (events st) @ replicate k (one_time_code_at env (Suc (tick st))) @ ?codes"
    unfolding one_time_codes_def n(1) by (simp add: own)
  moreover have "\<forall>code\<in>set ?codes. \<exists>t. tick st + 4 \<le> t \<and> code = one_time_code_at env t"
    using n(2) by auto
  moreover have "\<forall>t. one_time_code_at env t = bytes_hex (map (urandom_byte env t) [0..<4]) \<and>
      length (one_time_code_at env t) = 8 \<and>
      set (one_time_code_at env t) \<subseteq> set ''0123456789abcdef''"
    using one_time_code_at_format by (simp add: one_time_code_at_def)
  ultimately show ?thesis using own by blast
qed

lemma agent_run_scene_code:
  "store_one_time_code (store (agent_run_scene cfg cm code recent addition)) = code"
  by (simp add: agent_run_scene_def Let_def)

lemma codes_in_env_script:
  "one_time_code_at env_script (Suc 0) = ''10111213''"
  "one_time_code_at env_script 11 = ''b0b1b2b3''"
  by (simp_all add: one_time_code_at_def env_script_simps bytes_hex_def byte_hex_def
      hex_char_def upt_rec)

lemma scenario_script_then_text:
  "one_time_codes (events (snd (agent_run cfg0 env_script msg0 None 0 st_start))) =
     [''10111213'', ''b0b1b2b3'']"
  "sent (events (snd (agent_run cfg0 env_script msg0 None 0 st_start))) =
     [Send_agent_message ''group_1'' ''sorry'' (Some True)]"
  "length (heap (snd (agent_run cfg0 env_script msg0 None 0 st_start)) 0) = 2"
  by (simp_all add: run_defs exec_defs script_fails_in_env_script cfg0_simps env_script_simps
      msg0_simps st_start_simps one_time_codes_def agent_run_scene_code bytes_hex_def
      byte_hex_def hex_char_def upt_rec)

text \<open>The second end-to-end scenario: the script of the first reply fails, the loop is
  entered again at depth 1; the two invocations submit two codes, read at counters 1 and
  11.\<close>

theorem one_time_code_per_invocation_witness:
  "one_time_codes (events (snd (agent_run cfg0 env_script msg0 None 0 st_start))) =
     [''10111213'', ''b0b1b2b3''] \<and>
   (\<exists>k nested.
      [''10111213'', ''b0b1b2b3''] = replicate k ''10111213'' @ nested \<and>
      (\<forall>code\<in>set nested. \<exists>t. 4 \<le> t \<and> code = one_time_code_at env_script t))"
proof -
  note sc = scenario_script_then_text(1)
  from one_time_code_per_invocation [of cfg0 env_script msg0 None 0 st_start]
  obtain k nested where
    "one_time_codes (events (snd (agent_run cfg0 env_script msg0 None 0 st_start))) =
       one_time_codes (events st_start)
       @ replicate k (one_time_code_at env_script (Suc (tick st_start))) @ nested"
    "\<forall>code\<in>set nested. \<exists>t. tick st_start + 4 \<le> t \<and> code = one_time_code_at env_script t"
    by blast
  then have "[''10111213'', ''b0b1b2b3''] = replicate k ''10111213'' @ nested \<and>
      (\<forall>code\<in>set nested. \<exists>t. 4 \<le> t \<and> code = one_time_code_at env_script t)"
    unfolding sc by (simp add: st_start_simps codes_in_env_script)
  with sc show ?thesis by blast
qed

subsection \<open>The list of addition messages\<close>



end
